theory Spec2Isabelle
  imports Main
begin

section \<open>Python string operations used by \<^verbatim>\<open>shell.py\<close>\<close>

text \<open>
  Strings are \<open>char list\<close>; the shell decodes its files as latin-1, so one \<open>char\<close> is
  one code point. \<open>startswith\<close>, \<open>str.split\<close>, \<open>str.strip\<close>, \<open>str.lstrip\<close> and
  \<open>str.splitlines\<close> follow the Python built-ins.
\<close>

definition startswith :: "string \<Rightarrow> string \<Rightarrow> bool" where
  "startswith s p = (take (length p) s = p)"

text \<open>
  \<open>find_sep sep s\<close> cuts \<open>s\<close> at the first (leftmost) occurrence of the non-empty
  separator: the text before it and the text after it; \<open>None\<close> when it does not occur.
\<close>

fun find_sep :: "string \<Rightarrow> string \<Rightarrow> (string \<times> string) option" where
  "find_sep sep [] = None"
| "find_sep sep (c # cs) =
     (if startswith (c # cs) sep then Some ([], drop (length sep) (c # cs))
      else (case find_sep sep cs of
              None \<Rightarrow> None
            | Some (b, a) \<Rightarrow> Some (c # b, a)))"

text \<open>\<open>s.split(sep, 1)\<close> for a non-empty \<open>sep\<close>.\<close>

definition py_split1 :: "string \<Rightarrow> string \<Rightarrow> string list" where
  "py_split1 sep s = (case find_sep sep s of None \<Rightarrow> [s] | Some (b, a) \<Rightarrow> [b, a])"

text \<open>
  \<open>s.split(sep)\<close> for a non-empty \<open>sep\<close>: a left-to-right scan for non-overlapping
  occurrences. \<open>skip\<close> counts the characters of a matched separator still to be passed
  over, \<open>cur\<close> is the current piece, reversed.
\<close>

fun split_scan :: "string \<Rightarrow> nat \<Rightarrow> string \<Rightarrow> string \<Rightarrow> string list" where
  "split_scan sep skip cur [] = [rev cur]"
| "split_scan sep skip cur (c # cs) =
     (if 0 < skip then split_scan sep (skip - 1) cur cs
      else if startswith (c # cs) sep then rev cur # split_scan sep (length sep - 1) [] cs
      else split_scan sep 0 (c # cur) cs)"

definition py_split :: "string \<Rightarrow> string \<Rightarrow> string list" where
  "py_split sep s = split_scan sep 0 [] s"

text \<open>
  \<open>str.isspace\<close> on the code points below 256, and the two forms of \<open>strip\<close>:
  without an argument (white space) and with a set of characters.
\<close>

definition isspace :: "char \<Rightarrow> bool" where
  "isspace c = ((of_char c :: nat) \<in> {9, 10, 11, 12, 13, 28, 29, 30, 31, 32, 133, 160})"

definition strip_where :: "(char \<Rightarrow> bool) \<Rightarrow> string \<Rightarrow> string" where
  "strip_where P s = rev (dropWhile P (rev (dropWhile P s)))"

definition py_strip :: "string \<Rightarrow> string" where
  "py_strip s = strip_where isspace s"

definition py_strip_chars :: "string \<Rightarrow> string \<Rightarrow> string" where
  "py_strip_chars chars s = strip_where (\<lambda>c. c \<in> set chars) s"

definition py_lstrip_chars :: "string \<Rightarrow> string \<Rightarrow> string" where
  "py_lstrip_chars chars s = dropWhile (\<lambda>c. c \<in> set chars) s"

definition is_linebreak :: "char \<Rightarrow> bool" where
  "is_linebreak c = ((of_char c :: nat) \<in> {10, 11, 12, 13, 28, 29, 30, 133})"

fun splitlines_scan :: "string \<Rightarrow> string \<Rightarrow> string list" where
  "splitlines_scan cur [] = (if cur = [] then [] else [rev cur])"
| "splitlines_scan cur [c] =
     (if is_linebreak c then [rev cur] else [rev (c # cur)])"
| "splitlines_scan cur (c # d # cs) =
     (if c = CHR 0x0D \<and> d = CHR 0x0A then rev cur # splitlines_scan [] cs
      else if is_linebreak c then rev cur # splitlines_scan [] (d # cs)
      else splitlines_scan (c # cur) (d # cs))"

definition splitlines :: "string \<Rightarrow> string list" where
  "splitlines s = splitlines_scan [] s"

text \<open>\<open>os.path.isabs\<close> of \<open>posixpath\<close>: the path starts with a slash.\<close>

definition isabs :: "string \<Rightarrow> bool" where
  "isabs s = startswith s ''/''"

section \<open>Data model\<close>

datatype error =
    RuntimeError string
  | KeyError string
  | ValueError string
  | TypeError string
  | OSError string
  | DatabaseLoadFailure string error
  | ParserError string

text \<open>
  A \<open>pathlib.Path\<close> value is kept symbolically: \<open>Path s\<close> is \<open>pathlib.Path(s)\<close> and
  \<open>Div p q\<close> is \<open>p / q\<close>. What the file system says about a path
  (\<open>is_absolute\<close>, \<open>exists\<close>, \<open>resolve\<close>) is a parameter of the model.
\<close>

datatype path = Path string | Div path path

text \<open>
  \<open>LoadContext(name, line)\<close>; a \<open>FullLoadContext\<close> is a tuple of them, outermost file
  first.
\<close>

type_synonym load_context = "string \<times> nat"
type_synonym full_load_context = "load_context list"

text \<open>
  Modelled from the spec: \<open>MutableLoadContext\<close> is declared in \<open>common.py\<close>, which is
  not among the sources; the shell constructs it as \<open>MutableLoadContext(str(name), 0)\<close>,
  assigns its \<open>line\<close> and calls \<open>to_load_context()\<close>. The spec describes a load
  context as a (filename, line-number) pair, so the entry is a plain data class of these
  two fields, and two entries are equal (\<open>==\<close>) when both fields are.
  \<open>ctx_id\<close> is the identity of the Python object: the interpreter keeps assigning to
  the object it pushed, wherever that object is in the stack.
\<close>

record mutable_load_context =
  ctx_id :: nat
  ctx_name :: string
  ctx_line :: nat

definition ctx_eq :: "mutable_load_context \<Rightarrow> mutable_load_context \<Rightarrow> bool" where
  "ctx_eq a b = (ctx_name a = ctx_name b \<and> ctx_line a = ctx_line b)"

definition to_load_context :: "mutable_load_context \<Rightarrow> load_context" where
  "to_load_context c = (ctx_name c, ctx_line c)"

text \<open>
  Modelled from the spec: \<open>RecordInstance\<close> and its field values are declared in
  \<open>common.py\<close>. The shell reads and writes \<open>context\<close>, \<open>fields\<close> (a dict from field
  name to a field whose \<open>value\<close> is a string) and constructs an instance from
  \<open>context\<close>, \<open>name\<close>, \<open>record_type\<close>, \<open>fields\<close>, \<open>is_pva\<close> and \<open>metadata\<close>.
\<close>

record record_field =
  field_dtype :: string
  field_name :: string
  field_value :: string
  field_context :: full_load_context

record record_instance =
  ri_context :: full_load_context
  ri_name :: string
  ri_record_type :: string
  ri_fields :: "string \<rightharpoonup> record_field"
  ri_is_pva :: bool
  ri_metadata :: "(string \<times> (string \<times> string) list) list"

text \<open>
  Modelled from the spec: the port classes are declared in \<open>asyn.py\<close>. Every port has a
  \<open>context\<close>, a \<open>name\<close>, \<open>options\<close>, \<open>metadata\<close> and \<open>motors\<close>; a motor has a
  \<open>parent\<close> port name (\<open>getattr(port, "parent", None)\<close> is \<open>None\<close> for the other
  classes); a multi-device port owns \<open>devices\<close> by address, each with its own
  \<open>options\<close>. The keyword arguments particular to a class are kept in \<open>port_params\<close>.
  Port objects are shared (a motor is stored both in the registry and in its parent's
  \<open>motors\<close>), so they live in a store and are referred to by address.
\<close>

datatype port_class =
  AsynSerialPort | AsynIPPort | AdsAsynPort | AsynMotor | AsynPortMultiDevice

datatype pyval = PStr string | PInt int | PFloatZero

record asyn_port_option =
  opt_context :: full_load_context
  opt_key :: string
  opt_value :: string

record asyn_port_device =
  dev_options :: "string \<rightharpoonup> asyn_port_option"

record asyn_port =
  port_class :: port_class
  port_context :: full_load_context
  port_name :: string
  port_params :: "(string \<times> string option) list"
  port_options :: "string \<rightharpoonup> asyn_port_option"
  port_metadata :: "(string \<times> pyval) list"
  port_motors :: "string \<rightharpoonup> nat"
  port_parent :: "string option"
  port_devices :: "string \<rightharpoonup> asyn_port_device"

text \<open>
  Modelled from the spec: a \<open>Database\<close> (\<open>db.py\<close>) used as the schema, and the
  transient per-file database that \<open>Database.from_file\<close> returns: its \<open>records\<close> and
  \<open>pva_groups\<close> are dicts, kept as association lists in iteration order.
\<close>

datatype schema = Schema (schema_filename: string) (schema_record_types: "string list")

record parsed_db =
  db_records :: "(string \<times> record_instance) list"
  db_pva_groups :: "(string \<times> record_instance) list"

record ioc_metadata =
  md_name :: string
  md_script :: string
  md_base_version :: string
  md_database_version_spec :: nat
  md_loaded_files :: "string \<rightharpoonup> string"

text \<open>What a command handler returns, one constructor per shape of return value.\<close>

datatype cmd_result =
    RNone
  | RRegisteredVariable string string
  | REnvSet string string "cmd_result"
  | RSetBaseVersion string
  | RFoundVersion string string
  | REmptyString
  | RMacros "(string \<times> string) list"
  | IocshCmdArgs full_load_context string
  | RNewWorkingDirectory path
  | RMultipleDbLoadDatabase
  | RLoadedDatabase string
  | RShortLinterResults "string list" "string list" "(string \<times> string) list"
  | REmptyList
  | RMetadata "(string \<times> string) list"
  | RGenericInfo "(string \<times> string \<times> string) list"
  | RSpecificAndGeneric cmd_result cmd_result

record iocsh_redirect =
  redir_fileno :: nat
  redir_name :: string
  redir_mode :: string

datatype line_error =
    ParseFailure string
  | RedirectFailure error string
  | FailedToExecute error

record iocsh_result =
  res_context :: full_load_context
  res_line :: string
  res_argv :: "string list"
  res_redirects :: "iocsh_redirect list"
  res_error :: "line_error option"
  res_result :: "cmd_result"

text \<open>
  \<open>ShellState\<close>. \<open>standin_directories\<close> is an association list, since the order of a
  Python dict's items decides which prefix \<open>_fix_path\<close> tries first. \<open>port_store\<close>
  holds the port objects the registry \<open>asyn_ports\<close> and the \<open>motors\<close> of a port
  refer to; \<open>next_port\<close> and \<open>next_ctx\<close> are the next unused object identities.
\<close>

record shell_state =
  prompt :: string
  variables :: "string \<rightharpoonup> string"
  string_encoding :: string
  ioc_initialized :: bool
  standin_directories :: "(string \<times> string) list"
  working_directory :: path
  database_definition :: "schema option"
  database :: "string \<rightharpoonup> record_instance"
  pva_database :: "string \<rightharpoonup> record_instance"
  load_context :: "mutable_load_context list"
  asyn_ports :: "string \<rightharpoonup> nat"
  loaded_files :: "string \<rightharpoonup> string"
  macro_context :: "string \<rightharpoonup> string"
  ioc_info :: ioc_metadata
  port_store :: "nat \<Rightarrow> asyn_port"
  next_port :: nat
  next_ctx :: nat

text \<open>
  The collaborators that are not part of \<open>shell.py\<close>: the file system, the line parser
  (\<open>iocsh.py\<close>), the macro-string parser (\<open>macro.py\<close>), the database parsers
  (\<open>db.py\<close>), the table of motor commands (\<open>motor.py\<close>) and a setting.
\<close>

record env =
  is_absolute :: "path \<Rightarrow> bool"
  path_exists :: "path \<Rightarrow> bool"
  resolve :: "path \<Rightarrow> string"
  read_text_file_with_hash :: "string \<Rightarrow> error + (string \<times> string)"
  parse_iocsh_line ::
    "string \<Rightarrow> full_load_context \<Rightarrow> string \<Rightarrow> (string \<rightharpoonup> string) \<Rightarrow> string \<Rightarrow> iocsh_result"
  definitions_to_dict :: "string \<Rightarrow> error + (string \<times> string) list"
  get_macros :: "(string \<rightharpoonup> string) \<Rightarrow> (string \<times> string) list"
  database_from_string ::
    "string \<Rightarrow> nat \<Rightarrow> string \<Rightarrow> (string \<rightharpoonup> string) \<Rightarrow> error + schema"
  database_from_file ::
    "string \<Rightarrow> schema \<Rightarrow> (string \<rightharpoonup> string) \<Rightarrow> nat \<Rightarrow> error + parsed_db"
  shell_commands :: "(string \<times> (string \<times> string) list) list"
  default_base_version :: string

type_synonym 'a raised = "(error + 'a) \<times> shell_state"

section \<open>\<open>ShellState\<close>: paths and files\<close>

text \<open>
  \<open>_fix_path\<close>: for an absolute file name, the items of \<open>standin_directories\<close> are
  tried in order and the first key the name starts with is rewritten;
  \<open>filename.split(from_, 1)\<close> raises \<open>ValueError\<close> on an empty key. Otherwise the name
  is joined to the working directory.
\<close>

fun fix_path_loop :: "(string \<times> string) list \<Rightarrow> string \<Rightarrow> (error + path) option" where
  "fix_path_loop [] filename = None"
| "fix_path_loop ((from, to) # items) filename =
     (if startswith filename from then
        (if from = [] then Some (Inl (ValueError ''empty separator''))
         else (case py_split1 from filename of
                 [_, suffix] \<Rightarrow> Some (Inr (Path (to @ suffix)))
               | _ \<Rightarrow> Some (Inl (ValueError ''not enough values to unpack''))))
      else fix_path_loop items filename)"

definition fix_path :: "shell_state \<Rightarrow> string \<Rightarrow> error + path" where
  "fix_path st filename =
     (case (if isabs filename then fix_path_loop (standin_directories st) filename else None) of
        Some r \<Rightarrow> r
      | None \<Rightarrow> Inr (Div (working_directory st) (Path filename)))"

text \<open>
  \<open>load_file\<close>: fix the path, resolve it, read the file with its hash and record the
  hash in both ledgers under the resolved name.
\<close>

definition load_file :: "env \<Rightarrow> shell_state \<Rightarrow> string \<Rightarrow> (string \<times> string) raised" where
  "load_file E st filename =
     (case fix_path st filename of
        Inl ex \<Rightarrow> (Inl ex, st)
      | Inr p \<Rightarrow>
          (let fn = resolve E p in
           case read_text_file_with_hash E fn of
             Inl ex \<Rightarrow> (Inl ex, st)
           | Inr (shasum, contents) \<Rightarrow>
               (Inr (fn, contents),
                st\<lparr>loaded_files := (loaded_files st)(fn \<mapsto> shasum),
                   ioc_info := (ioc_info st)
                     \<lparr>md_loaded_files := (md_loaded_files (ioc_info st))(fn \<mapsto> shasum)\<rparr>\<rparr>)))"

definition get_load_context :: "shell_state \<Rightarrow> full_load_context" where
  "get_load_context st = map to_load_context (load_context st)"

section \<open>\<open>ShellState\<close>: the command handlers\<close>

text \<open>
  A handler receives the words after the command name. \<open>arg args i\<close> is the \<open>i\<close>-th
  positional argument or \<open>None\<close> (the default of every optional parameter but the
  motor handlers'); \<open>truthy\<close> is Python's truth value of such an argument and
  \<open>or_empty\<close> is \<open>x or ""\<close>. A required parameter that is missing is a \<open>TypeError\<close>.
\<close>

definition arg :: "string list \<Rightarrow> nat \<Rightarrow> string option" where
  "arg args i = (if i < length args then Some (args ! i) else None)"

definition truthy :: "string option \<Rightarrow> bool" where
  "truthy a = (case a of None \<Rightarrow> False | Some s \<Rightarrow> s \<noteq> [])"

definition or_empty :: "string option \<Rightarrow> string" where
  "or_empty a = (case a of None \<Rightarrow> [] | Some s \<Rightarrow> s)"

definition arg_or :: "string list \<Rightarrow> nat \<Rightarrow> pyval \<Rightarrow> pyval" where
  "arg_or args i d = (case arg args i of None \<Rightarrow> d | Some s \<Rightarrow> PStr s)"

definition missing_argument :: error where
  "missing_argument = TypeError ''missing required positional argument''"

definition handle_iocshRegisterVariable :: "shell_state \<Rightarrow> string list \<Rightarrow> cmd_result raised" where
  "handle_iocshRegisterVariable st args =
     (case args of
        variable # value # _ \<Rightarrow>
          (Inr (RRegisteredVariable variable value),
           st\<lparr>variables := (variables st)(variable \<mapsto> value)\<rparr>)
      | _ \<Rightarrow> (Inl missing_argument, st))"

fun env_set_EPICS_BASE_loop ::
  "env \<Rightarrow> shell_state \<Rightarrow> string list \<Rightarrow> string \<Rightarrow> cmd_result \<times> shell_state" where
  "env_set_EPICS_BASE_loop E st [] path = (RNone, st)"
| "env_set_EPICS_BASE_loop E st (prefix # prefixes) path =
     (if startswith path prefix then
        (let path1 = drop (length prefix) path;
             path2 = (if CHR ''/'' \<in> set path1
                      then (case py_split ''/'' path1 of p # _ \<Rightarrow> p | [] \<Rightarrow> path1)
                      else path1);
             version = py_lstrip_chars ''R'' path2
         in if md_base_version (ioc_info st) = default_base_version E
            then (RSetBaseVersion version,
                  st\<lparr>ioc_info := (ioc_info st)\<lparr>md_base_version := version\<rparr>\<rparr>)
            else (RFoundVersion version (md_base_version (ioc_info st)), st))
      else env_set_EPICS_BASE_loop E st prefixes path)"

definition env_set_EPICS_BASE :: "env \<Rightarrow> shell_state \<Rightarrow> string \<Rightarrow> cmd_result \<times> shell_state" where
  "env_set_EPICS_BASE E st path =
     env_set_EPICS_BASE_loop E st
       [''/reg/g/pcds/epics/base/'', ''/cds/group/pcds/epics/base/'']
       (resolve E (Path path))"

text \<open>
  \<open>handle_epicsEnvSet\<close> defines the macro and calls the hook \<open>env_set_<variable>\<close>
  when the class has one; \<open>env_set_EPICS_BASE\<close> is the only one.
\<close>

definition handle_epicsEnvSet :: "env \<Rightarrow> shell_state \<Rightarrow> string list \<Rightarrow> cmd_result raised" where
  "handle_epicsEnvSet E st args =
     (case args of
        variable # value # _ \<Rightarrow>
          (let st1 = st\<lparr>macro_context := (macro_context st)(variable \<mapsto> value)\<rparr>;
               (hook_result, st2) =
                 (if variable = ''EPICS_BASE'' then env_set_EPICS_BASE E st1 value
                  else (REmptyString, st1))
           in (Inr (REnvSet variable value hook_result), st2))
      | _ \<Rightarrow> (Inl missing_argument, st))"

definition handle_epicsEnvShow :: "env \<Rightarrow> shell_state \<Rightarrow> string list \<Rightarrow> cmd_result raised" where
  "handle_epicsEnvShow E st args = (Inr (RMacros (get_macros E (macro_context st))), st)"

definition handle_iocshCmd :: "shell_state \<Rightarrow> string list \<Rightarrow> cmd_result raised" where
  "handle_iocshCmd st args =
     (case args of
        command # _ \<Rightarrow> (Inr (IocshCmdArgs (get_load_context st) command), st)
      | [] \<Rightarrow> (Inl missing_argument, st))"

definition handle_cd :: "env \<Rightarrow> shell_state \<Rightarrow> string list \<Rightarrow> cmd_result raised" where
  "handle_cd E st args =
     (case args of
        path # _ \<Rightarrow>
          (case fix_path st path of
             Inl ex \<Rightarrow> (Inl ex, st)
           | Inr p \<Rightarrow>
               (let new_dir = (if is_absolute E p then p else Div (working_directory st) p)
                in if \<not> path_exists E new_dir
                   then (Inl (RuntimeError ''Path does not exist''), st)
                   else (let wd = Path (resolve E new_dir)
                         in (Inr (RNewWorkingDirectory wd), st\<lparr>working_directory := wd\<rparr>))))
      | [] \<Rightarrow> (Inl missing_argument, st))"

definition handle_iocInit :: "shell_state \<Rightarrow> string list \<Rightarrow> cmd_result raised" where
  "handle_iocInit st args = (Inr RNone, st\<lparr>ioc_initialized := True\<rparr>)"

text \<open>
  \<open>handle_dbLoadDatabase\<close>. The schema object is truthy whenever one is attached. The
  macros of \<open>substitutions\<close> are visible to the parser only: the scope is left again
  whether the parser returns or raises.
\<close>

definition handle_dbLoadDatabase :: "env \<Rightarrow> shell_state \<Rightarrow> string list \<Rightarrow> cmd_result raised" where
  "handle_dbLoadDatabase E st args =
     (case args of
        dbd # _ \<Rightarrow>
          (if ioc_initialized st
           then (Inl (RuntimeError ''Database cannot be loaded after iocInit''), st)
           else if database_definition st \<noteq> None
           then (Inr RMultipleDbLoadDatabase, st)
           else
             (case load_file E st dbd of
                (Inl ex, st1) \<Rightarrow> (Inl ex, st1)
              | (Inr (fn, contents), st1) \<Rightarrow>
                  (case (if truthy (arg args 2) then definitions_to_dict E (or_empty (arg args 2))
                         else Inr []) of
                     Inl ex \<Rightarrow> (Inl ex, st1)
                   | Inr macros \<Rightarrow>
                       (case database_from_string E contents
                               (md_database_version_spec (ioc_info st1)) fn
                               (macro_context st1 ++ map_of macros) of
                          Inl ex \<Rightarrow> (Inl ex, st1)
                        | Inr sch \<Rightarrow>
                            (Inr (RLoadedDatabase fn),
                             st1\<lparr>database_definition := Some sch\<rparr>)))))
      | [] \<Rightarrow> (Inl missing_argument, st))"

text \<open>
  The two merge loops of \<open>handle_dbLoadRecords\<close>. The second one, over the structured
  groups, tests membership in \<open>pva_database\<close> but reads and updates the entry of
  \<open>database\<close>, as the source does; that subscript raises \<open>KeyError\<close> when the classic
  store has no record of the name.
\<close>

fun merge_records ::
  "full_load_context \<Rightarrow> (string \<times> record_instance) list \<Rightarrow> shell_state \<Rightarrow> shell_state" where
  "merge_records context [] st = st"
| "merge_records context ((name, rec) # items) st =
     merge_records context items
       (case database st name of
          None \<Rightarrow>
            st\<lparr>database := (database st)(name \<mapsto> rec\<lparr>ri_context := context @ ri_context rec\<rparr>)\<rparr>
        | Some entry \<Rightarrow>
            st\<lparr>database := (database st)(name \<mapsto>
                  entry\<lparr>ri_context := ri_context entry @ ri_context rec,
                        ri_fields := ri_fields entry ++ ri_fields rec\<rparr>)\<rparr>)"

fun merge_pva_groups ::
  "full_load_context \<Rightarrow> (string \<times> record_instance) list \<Rightarrow> shell_state \<Rightarrow> unit raised" where
  "merge_pva_groups context [] st = (Inr (), st)"
| "merge_pva_groups context ((name, rec) # items) st =
     (case pva_database st name of
        None \<Rightarrow>
          merge_pva_groups context items
            (st\<lparr>pva_database :=
                  (pva_database st)(name \<mapsto> rec\<lparr>ri_context := context @ ri_context rec\<rparr>)\<rparr>)
      | Some _ \<Rightarrow>
          (case database st name of
             None \<Rightarrow> (Inl (KeyError name), st)
           | Some entry \<Rightarrow>
               merge_pva_groups context items
                 (st\<lparr>database := (database st)(name \<mapsto>
                       entry\<lparr>ri_context := ri_context entry @ ri_context rec,
                             ri_fields := ri_fields entry ++ ri_fields rec\<rparr>)\<rparr>)))"

definition handle_dbLoadRecords :: "env \<Rightarrow> shell_state \<Rightarrow> string list \<Rightarrow> cmd_result raised" where
  "handle_dbLoadRecords E st args =
     (case args of
        filename # macros # _ \<Rightarrow>
          (case database_definition st of
             None \<Rightarrow> (Inl (RuntimeError ''dbd not yet loaded''), st)
           | Some dbd \<Rightarrow>
               if ioc_initialized st
               then (Inl (RuntimeError ''Records cannot be loaded after iocInit''), st)
               else
                 (case load_file E st filename of
                    (Inl ex, st1) \<Rightarrow> (Inl ex, st1)
                  | (Inr (fn, contents), st1) \<Rightarrow>
                      (case definitions_to_dict E macros of
                         Inl ex \<Rightarrow> (Inl ex, st1)
                       | Inr ms \<Rightarrow>
                           (case database_from_file E fn dbd (macro_context st1 ++ map_of ms)
                                   (md_database_version_spec (ioc_info st1)) of
                              Inl ex \<Rightarrow> (Inl (DatabaseLoadFailure fn ex), st1)
                            | Inr db \<Rightarrow>
                                (let context = get_load_context st1;
                                     st2 = merge_records context (db_records db) st1
                                 in case merge_pva_groups context (db_pva_groups db) st2 of
                                      (Inl ex, st3) \<Rightarrow> (Inl ex, st3)
                                    | (Inr _, st3) \<Rightarrow>
                                        (Inr (RShortLinterResults (map fst (db_records db))
                                                (map fst (db_pva_groups db)) ms),
                                         st3))))))
      | _ \<Rightarrow> (Inl missing_argument, st))"

definition handle_dbl :: "shell_state \<Rightarrow> string list \<Rightarrow> cmd_result raised" where
  "handle_dbl st args = (Inr REmptyList, st)"

definition handle_NDPvaConfigure :: "shell_state \<Rightarrow> string list \<Rightarrow> cmd_result raised" where
  "handle_NDPvaConfigure st args =
     (case arg args 5 of
        None \<Rightarrow> (Inr RNone, st)
      | Some pvName \<Rightarrow>
          (let metadata =
                 [(''portName'', or_empty (arg args 0)),
                  (''queueSize'', or_empty (arg args 1)),
                  (''blockingCallbacks'', or_empty (arg args 2)),
                  (''NDArrayPort'', or_empty (arg args 3)),
                  (''NDArrayAddr'', or_empty (arg args 4)),
                  (''pvName'', pvName),
                  (''maxBuffers'', or_empty (arg args 6)),
                  (''maxMemory'', or_empty (arg args 7)),
                  (''priority'', or_empty (arg args 8)),
                  (''stackSize'', or_empty (arg args 9))]
           in (Inr (RMetadata metadata),
               st\<lparr>pva_database := (pva_database st)(pvName \<mapsto>
                    \<lparr>ri_context = get_load_context st, ri_name = pvName,
                     ri_record_type = ''PVA'', ri_fields = Map.empty, ri_is_pva = True,
                     ri_metadata = [(''areaDetector'', metadata)]\<rparr>)\<rparr>)))"

text \<open>
  The port configuration handlers. \<open>register_port\<close> creates the port object and
  binds the name to it in the registry: \<open>self.asyn_ports[name] = port\<close>.
\<close>

definition register_port :: "shell_state \<Rightarrow> string \<Rightarrow> asyn_port \<Rightarrow> shell_state" where
  "register_port st name port =
     st\<lparr>port_store := (port_store st)(next_port st := port),
        asyn_ports := (asyn_ports st)(name \<mapsto> next_port st),
        next_port := Suc (next_port st)\<rparr>"

definition make_port ::
  "port_class \<Rightarrow> full_load_context \<Rightarrow> string \<Rightarrow> (string \<times> string option) list \<Rightarrow> asyn_port" where
  "make_port cls context name params =
     \<lparr>port_class = cls, port_context = context, port_name = name, port_params = params,
      port_options = Map.empty, port_metadata = [], port_motors = Map.empty,
      port_parent = None, port_devices = Map.empty\<rparr>"

definition handle_drvAsynSerialPortConfigure ::
  "shell_state \<Rightarrow> string list \<Rightarrow> cmd_result raised" where
  "handle_drvAsynSerialPortConfigure st args =
     (if \<not> truthy (arg args 0) then (Inr RNone, st)
      else (Inr RNone,
            register_port st (or_empty (arg args 0))
              (make_port AsynSerialPort (get_load_context st) (or_empty (arg args 0))
                 [(''ttyName'', arg args 1), (''priority'', arg args 2),
                  (''noAutoConnect'', arg args 3), (''noProcessEos'', arg args 4)])))"

definition handle_drvAsynIPPortConfigure ::
  "shell_state \<Rightarrow> string list \<Rightarrow> cmd_result raised" where
  "handle_drvAsynIPPortConfigure st args =
     (if truthy (arg args 0)
      then (Inr RNone,
            register_port st (or_empty (arg args 0))
              (make_port AsynIPPort (get_load_context st) (or_empty (arg args 0))
                 [(''hostInfo'', arg args 1), (''priority'', arg args 2),
                  (''noAutoConnect'', arg args 3), (''noProcessEos'', arg args 4)]))
      else (Inr RNone, st))"

definition adsAsynPortDriverConfigure ::
  "shell_state \<Rightarrow> string list \<Rightarrow> cmd_result raised" where
  "adsAsynPortDriverConfigure st args =
     (if truthy (arg args 0)
      then (Inr RNone,
            register_port st (or_empty (arg args 0))
              (make_port AdsAsynPort (get_load_context st) (or_empty (arg args 0))
                 [(''ipaddr'', arg args 1), (''amsaddr'', arg args 2),
                  (''amsport'', arg args 3), (''asynParamTableSize'', arg args 4),
                  (''priority'', arg args 5), (''noAutoConnect'', arg args 6),
                  (''defaultSampleTimeMS'', arg args 7), (''maxDelayTimeMS'', arg args 8),
                  (''adsTimeoutMS'', arg args 9), (''defaultTimeSource'', arg args 10)]))
      else (Inr RNone, st))"

definition handle_asynSetOption :: "shell_state \<Rightarrow> string list \<Rightarrow> cmd_result raised" where
  "handle_asynSetOption st args =
     (case args of
        name # addr # key # value # _ \<Rightarrow>
          (case asyn_ports st name of
             None \<Rightarrow> (Inl (KeyError name), st)
           | Some r \<Rightarrow>
               (let port = port_store st r;
                    opt = \<lparr>opt_context = get_load_context st, opt_key = key, opt_value = value\<rparr>
                in if port_class port = AsynPortMultiDevice then
                     (case port_devices port addr of
                        None \<Rightarrow> (Inl (KeyError addr), st)
                      | Some dev \<Rightarrow>
                          (Inr RNone,
                           st\<lparr>port_store := (port_store st)(r :=
                                port\<lparr>port_devices := (port_devices port)(addr \<mapsto>
                                       dev\<lparr>dev_options := (dev_options dev)(key \<mapsto> opt)\<rparr>)\<rparr>)\<rparr>))
                   else
                     (Inr RNone,
                      st\<lparr>port_store := (port_store st)(r :=
                           port\<lparr>port_options := (port_options port)(key \<mapsto> opt)\<rparr>)\<rparr>)))
      | _ \<Rightarrow> (Inl missing_argument, st))"

text \<open>
  The two motor-controller handlers, before \<open>_motor_wrapper\<close> is applied. Their
  parameters default to \<open>""\<close>, \<open>0\<close> and \<open>0.0\<close>, and neither tests the port name.
\<close>

definition drvAsynMotorConfigure :: "shell_state \<Rightarrow> string list \<Rightarrow> cmd_result raised" where
  "drvAsynMotorConfigure st args =
     (let port_name = or_empty (arg args 0)
      in (Inr RNone,
          register_port st port_name
            ((make_port AsynMotor (get_load_context st) port_name [])
               \<lparr>port_parent := None,
                port_metadata :=
                  [(''num_axes'', arg_or args 3 (PInt 0)),
                   (''card_num'', arg_or args 2 (PInt 0)),
                   (''driver_name'', arg_or args 1 (PStr []))]\<rparr>)))"

definition EthercatMCCreateController ::
  "shell_state \<Rightarrow> string list \<Rightarrow> cmd_result raised" where
  "EthercatMCCreateController st args =
     (let motor_port = or_empty (arg args 0);
          asyn_port = or_empty (arg args 1)
      in case asyn_ports st asyn_port of
           None \<Rightarrow> (Inl (KeyError asyn_port), st)
         | Some r \<Rightarrow>
             (let motor = (make_port AsynMotor (get_load_context st) motor_port [])
                    \<lparr>port_parent := Some asyn_port,
                     port_metadata :=
                       [(''num_axes'', arg_or args 2 (PInt 0)),
                        (''move_poll_rate'', arg_or args 3 PFloatZero),
                        (''idle_poll_rate'', arg_or args 4 PFloatZero)]\<rparr>;
                  m = next_port st;
                  port = port_store st r
              in (Inr RNone,
                  st\<lparr>port_store := (port_store st)
                        (m := motor,
                         r := port\<lparr>port_motors := (port_motors port)(motor_port \<mapsto> m)\<rparr>),
                     asyn_ports := (asyn_ports st)(motor_port \<mapsto> m),
                     next_port := Suc m\<rparr>)))"

text \<open>
  \<open>_generic_motor_handler\<close> pairs the parameters the table \<open>motor.shell_commands\<close>
  lists for the command with the arguments given; \<open>_motor_wrapper\<close> runs the specific
  handler and then the generic one.
\<close>

definition generic_motor_handler :: "env \<Rightarrow> string \<Rightarrow> string list \<Rightarrow> error + cmd_result" where
  "generic_motor_handler E name args =
     (case map_of (shell_commands E) name of
        None \<Rightarrow> Inl (KeyError name)
      | Some params \<Rightarrow>
          Inr (RGenericInfo (map (\<lambda>((pname, type_name), value). (type_name, pname, value))
                               (zip params args))))"

definition motor_wrapper ::
  "env \<Rightarrow> string \<Rightarrow> (shell_state \<Rightarrow> string list \<Rightarrow> cmd_result raised) \<Rightarrow>
   shell_state \<Rightarrow> string list \<Rightarrow> cmd_result raised" where
  "motor_wrapper E name method st args =
     (case method st args of
        (Inl ex, st1) \<Rightarrow> (Inl ex, st1)
      | (Inr specific_info, st1) \<Rightarrow>
          (case generic_motor_handler E name args of
             Inl ex \<Rightarrow> (Inl ex, st1)
           | Inr generic_info \<Rightarrow>
               (if specific_info \<noteq> RNone \<and> specific_info \<noteq> REmptyString
                then (Inr (RSpecificAndGeneric specific_info generic_info), st1)
                else (Inr generic_info, st1))))"

definition handle_adsAsynPortDriverConfigure ::
  "env \<Rightarrow> shell_state \<Rightarrow> string list \<Rightarrow> cmd_result raised" where
  "handle_adsAsynPortDriverConfigure E =
     motor_wrapper E ''adsAsynPortDriverConfigure'' adsAsynPortDriverConfigure"

definition handle_drvAsynMotorConfigure ::
  "env \<Rightarrow> shell_state \<Rightarrow> string list \<Rightarrow> cmd_result raised" where
  "handle_drvAsynMotorConfigure E =
     motor_wrapper E ''drvAsynMotorConfigure'' drvAsynMotorConfigure"

definition handle_EthercatMCCreateController ::
  "env \<Rightarrow> shell_state \<Rightarrow> string list \<Rightarrow> cmd_result raised" where
  "handle_EthercatMCCreateController E =
     motor_wrapper E ''EthercatMCCreateController'' EthercatMCCreateController"

section \<open>Command dispatch\<close>

text \<open>
  \<open>_handlers\<close>: \<open>find_handlers\<close> collects every callable attribute whose name starts
  with \<open>handle_\<close>, and \<open>_setup_dynamic_handlers\<close> adds the generic motor handler for
  each command of \<open>motor.shell_commands\<close> that has none yet. \<open>handle_command\<close> is
  itself such an attribute, so the word \<open>command\<close> dispatches its first argument; it
  is the one entry that is not in \<open>found_handlers\<close> and is written into
  \<open>handle_command\<close> below.
\<close>

definition found_handlers ::
  "env \<Rightarrow> (string \<times> (shell_state \<Rightarrow> string list \<Rightarrow> cmd_result raised)) list" where
  "found_handlers E =
     [(''EthercatMCCreateController'', handle_EthercatMCCreateController E),
      (''NDPvaConfigure'', handle_NDPvaConfigure),
      (''adsAsynPortDriverConfigure'', handle_adsAsynPortDriverConfigure E),
      (''asynSetOption'', handle_asynSetOption),
      (''cd'', handle_cd E),
      (''chdir'', handle_cd E),
      (''dbLoadDatabase'', handle_dbLoadDatabase E),
      (''dbLoadRecords'', handle_dbLoadRecords E),
      (''dbl'', handle_dbl),
      (''drvAsynIPPortConfigure'', handle_drvAsynIPPortConfigure),
      (''drvAsynMotorConfigure'', handle_drvAsynMotorConfigure E),
      (''drvAsynSerialPortConfigure'', handle_drvAsynSerialPortConfigure),
      (''epicsEnvSet'', handle_epicsEnvSet E),
      (''epicsEnvShow'', handle_epicsEnvShow E),
      (''iocInit'', handle_iocInit),
      (''iocshCmd'', handle_iocshCmd),
      (''iocshRegisterVariable'', handle_iocshRegisterVariable)]"

definition handlers ::
  "env \<Rightarrow> string \<Rightarrow> (shell_state \<Rightarrow> string list \<Rightarrow> cmd_result raised) option" where
  "handlers E name =
     (case map_of (found_handlers E) name of
        Some h \<Rightarrow> Some h
      | None \<Rightarrow>
          (if name \<in> fst ` set (shell_commands E)
           then Some (\<lambda>st args.
                  (case generic_motor_handler E name args of
                     Inl ex \<Rightarrow> (Inl ex, st)
                   | Inr info \<Rightarrow> (Inr info, st)))
           else None))"

definition registered :: "env \<Rightarrow> string \<Rightarrow> bool" where
  "registered E name = (name = ''command'' \<or> handlers E name \<noteq> None)"

definition unhandled :: "shell_state \<Rightarrow> string \<Rightarrow> string list \<Rightarrow> cmd_result raised" where
  "unhandled st command args = (Inr RNone, st)"

fun handle_command :: "env \<Rightarrow> shell_state \<Rightarrow> string \<Rightarrow> string list \<Rightarrow> cmd_result raised" where
  "handle_command E st command [] =
     (if command = ''command'' then (Inl missing_argument, st)
      else (case handlers E command of
              Some handler \<Rightarrow> handler st []
            | None \<Rightarrow> unhandled st command []))"
| "handle_command E st command (a # args) =
     (if command = ''command'' then handle_command E st a args
      else (case handlers E command of
              Some handler \<Rightarrow> handler st (a # args)
            | None \<Rightarrow> unhandled st command (a # args)))"

section \<open>The script interpreter\<close>

text \<open>
  The interpreter functions are generators; the model runs one to its end and returns the
  results it yields in order, the exception that ended it (if one did) and the state.
  A script can include itself, so the recursion is bounded by fuel and \<open>None\<close> means
  the fuel ran out.

  \<open>set_line\<close> is \<open>load_ctx.line = lineno\<close>: the assignment reaches the object where
  it stands in the stack. \<open>remove_first\<close> is \<open>list.remove\<close>: it deletes the first
  element equal to its argument, and there is none exactly when the result is \<open>None\<close>
  (\<open>ValueError\<close>).
\<close>

type_synonym outcome = "iocsh_result list \<times> error option \<times> shell_state"

definition set_line :: "nat \<Rightarrow> nat \<Rightarrow> mutable_load_context list \<Rightarrow> mutable_load_context list" where
  "set_line i lineno stack = map (\<lambda>c. if ctx_id c = i then c\<lparr>ctx_line := lineno\<rparr> else c) stack"

fun remove_first :: "('a \<Rightarrow> bool) \<Rightarrow> 'a list \<Rightarrow> 'a list option" where
  "remove_first P [] = None"
| "remove_first P (x # xs) =
     (if P x then Some xs else map_option ((#) x) (remove_first P xs))"

definition error_truthy :: "line_error option \<Rightarrow> bool" where
  "error_truthy e =
     (case e of None \<Rightarrow> False | Some (ParseFailure msg) \<Rightarrow> msg \<noteq> [] | Some _ \<Rightarrow> True)"

text \<open>
  What \<open>interpret_shell_line\<close> does with one line before it recurses: it is done
  (with the results yielded, the exception raised and the state), or it follows an input
  redirect, or it has yielded a result whose command result is \<open>IocshCmdArgs\<close> and
  interprets that command next.
\<close>

datatype line_action =
    Done "iocsh_result list" "error option" shell_state
  | FollowRedirect iocsh_redirect iocsh_result
  | Reinvoke iocsh_result string shell_state

definition after_yield :: "iocsh_result \<Rightarrow> shell_state \<Rightarrow> line_action" where
  "after_yield shresult st =
     (case res_result shresult of
        IocshCmdArgs _ command \<Rightarrow> Reinvoke shresult command st
      | _ \<Rightarrow> Done [shresult] None st)"

definition dispatch_line :: "env \<Rightarrow> iocsh_result \<Rightarrow> bool \<Rightarrow> shell_state \<Rightarrow> line_action" where
  "dispatch_line E shresult raise_on_error st =
     (case res_argv shresult of
        [] \<Rightarrow> Done [shresult] None st
      | command # args \<Rightarrow>
          (case handle_command E st command args of
             (Inl ex, st1) \<Rightarrow>
               (if raise_on_error then Done [] (Some ex) st1
                else after_yield (shresult\<lparr>res_error := Some (FailedToExecute ex)\<rparr>) st1)
           | (Inr r, st1) \<Rightarrow> after_yield (shresult\<lparr>res_result := r\<rparr>) st1))"

definition line_action :: "env \<Rightarrow> string \<Rightarrow> bool \<Rightarrow> bool \<Rightarrow> shell_state \<Rightarrow> line_action" where
  "line_action E line recurse raise_on_error st =
     (let shresult = parse_iocsh_line E line (get_load_context st) (prompt st)
                       (macro_context st) (string_encoding st);
          input_redirects = filter (\<lambda>redir. redir_mode redir = ''r'') (res_redirects shresult)
      in if error_truthy (res_error shresult) then Done [shresult] None st
         else
           (case input_redirects of
              redir # _ \<Rightarrow>
                (if recurse then FollowRedirect redir shresult else Done [] None st)
            | [] \<Rightarrow> dispatch_line E shresult raise_on_error st))"

text \<open>
  The \<open>finally\<close> clause of \<open>interpret_shell_script\<close>:
  \<open>self.load_context.remove(load_ctx)\<close>, whose \<open>ValueError\<close> replaces whatever was
  being raised.
\<close>

definition leave_script ::
  "iocsh_result list \<times> error option \<times> mutable_load_context \<times> shell_state \<Rightarrow> outcome" where
  "leave_script r =
     (case r of (rs, exc, load_ctx, st) \<Rightarrow>
        (case remove_first (ctx_eq load_ctx) (load_context st) of
           None \<Rightarrow> (rs, Some (ValueError ''list.remove(x): x not in list''), st)
         | Some stack \<Rightarrow> (rs, exc, st\<lparr>load_context := stack\<rparr>)))"

definition enter_script :: "string \<Rightarrow> shell_state \<Rightarrow> mutable_load_context \<times> shell_state" where
  "enter_script name st =
     (let load_ctx = \<lparr>ctx_id = next_ctx st, ctx_name = name, ctx_line = 0\<rparr>
      in (load_ctx,
          st\<lparr>load_context := load_context st @ [load_ctx], next_ctx := Suc (next_ctx st)\<rparr>))"

definition enter_line :: "mutable_load_context \<Rightarrow> nat \<Rightarrow> shell_state \<Rightarrow> shell_state" where
  "enter_line load_ctx lineno st =
     st\<lparr>load_context := set_line (ctx_id load_ctx) lineno (load_context st)\<rparr>"

definition yield_first :: "iocsh_result \<Rightarrow> outcome option \<Rightarrow> outcome option" where
  "yield_first shresult r =
     (case r of None \<Rightarrow> None | Some (rs, exc, st) \<Rightarrow> Some (shresult # rs, exc, st))"

function (sequential) interpret_shell_line ::
      "env \<Rightarrow> nat \<Rightarrow> string \<Rightarrow> bool \<Rightarrow> bool \<Rightarrow> shell_state \<Rightarrow> outcome option"
  and handle_input_redirect ::
      "env \<Rightarrow> nat \<Rightarrow> iocsh_redirect \<Rightarrow> iocsh_result \<Rightarrow> bool \<Rightarrow> bool \<Rightarrow> shell_state \<Rightarrow>
       outcome option"
  and interpret_shell_script ::
      "env \<Rightarrow> nat \<Rightarrow> string list \<Rightarrow> string \<Rightarrow> bool \<Rightarrow> bool \<Rightarrow> shell_state \<Rightarrow> outcome option"
  and interpret_lines ::
      "env \<Rightarrow> nat \<Rightarrow> mutable_load_context \<Rightarrow> nat \<Rightarrow> string list \<Rightarrow> bool \<Rightarrow> bool \<Rightarrow>
       shell_state \<Rightarrow> (iocsh_result list \<times> error option \<times> mutable_load_context \<times> shell_state) option"
where
  "interpret_shell_line E 0 line recurse raise_on_error st = None"
| "interpret_shell_line E (Suc n) line recurse raise_on_error st =
     (case line_action E line recurse raise_on_error st of
        Done rs exc st1 \<Rightarrow> Some (rs, exc, st1)
      | FollowRedirect redir shresult \<Rightarrow>
          handle_input_redirect E n redir shresult recurse raise_on_error st
      | Reinvoke shresult command st1 \<Rightarrow>
          yield_first shresult (interpret_shell_line E n command recurse False st1))"
| "handle_input_redirect E n redir shresult recurse raise_on_error st =
     (case load_file E st (redir_name redir) of
        (Inl ex, st1) \<Rightarrow>
          Some ([shresult\<lparr>res_error := Some (RedirectFailure ex (redir_name redir))\<rparr>], None, st1)
      | (Inr (filename, contents), st1) \<Rightarrow>
          yield_first shresult
            (interpret_shell_script E n (splitlines contents) filename recurse False st1))"
| "interpret_shell_script E n lines name recurse raise_on_error st =
     (case enter_script name st of
        (load_ctx, st1) \<Rightarrow>
          map_option leave_script
            (interpret_lines E n load_ctx 1 lines recurse raise_on_error st1))"
| "interpret_lines E n load_ctx lineno [] recurse raise_on_error st =
     Some ([], None, load_ctx, st)"
| "interpret_lines E n load_ctx lineno (line # lines) recurse raise_on_error st =
     (case interpret_shell_line E n line recurse raise_on_error (enter_line load_ctx lineno st) of
        None \<Rightarrow> None
      | Some (rs, Some ex, st1) \<Rightarrow> Some (rs, Some ex, load_ctx\<lparr>ctx_line := lineno\<rparr>, st1)
      | Some (rs, None, st1) \<Rightarrow>
          map_option (\<lambda>(rs', r). (rs @ rs', r))
            (interpret_lines E n (load_ctx\<lparr>ctx_line := lineno\<rparr>) (Suc lineno) lines
               recurse raise_on_error st1))"
  by pat_completeness auto
termination
  by (relation "inv_image (less_than <*lex*> less_than <*lex*> less_than)
       (\<lambda>x. case x of
          Inl (Inl (E, n, line, recurse, raise_on_error, st)) \<Rightarrow> (n, 0::nat, 0::nat)
        | Inl (Inr (E, n, redir, shresult, recurse, raise_on_error, st)) \<Rightarrow> (n, 3, 0)
        | Inr (Inl (E, n, lines, name, recurse, raise_on_error, st)) \<Rightarrow> (n, 2, 0)
        | Inr (Inr (E, n, load_ctx, lineno, lines, recurse, raise_on_error, st)) \<Rightarrow>
            (n, 1, length lines))")
     auto

section \<open>The script container and the record query\<close>

record loaded_ioc =
  li_name :: string
  li_path :: string
  li_metadata :: ioc_metadata
  li_shell_state :: shell_state
  li_script :: "iocsh_result list"

record script_container =
  sc_database :: "string \<rightharpoonup> record_instance"
  sc_pva_database :: "string \<rightharpoonup> record_instance"
  sc_scripts :: "string \<rightharpoonup> loaded_ioc"
  sc_loaded_files :: "string \<rightharpoonup> string"

text \<open>\<open>add_script\<close>: four \<open>dict\<close> assignments and updates; \<open>m ++ m'\<close> is \<open>m.update(m')\<close>.\<close>

definition add_script :: "script_container \<Rightarrow> loaded_ioc \<Rightarrow> script_container" where
  "add_script c loaded =
     c\<lparr>sc_scripts := (sc_scripts c)(md_script (li_metadata loaded) \<mapsto> loaded),
       sc_database := sc_database c ++ database (li_shell_state loaded),
       sc_pva_database := sc_pva_database c ++ pva_database (li_shell_state loaded),
       sc_loaded_files := sc_loaded_files c ++ loaded_files (li_shell_state loaded)\<rparr>"

text \<open>
  \<open>get_asyn_port_from_record\<close> returns the port object; the model returns its
  address in the store. The subscript and the unpacking stand inside a \<open>try\<close> whose
  handler only logs, so a failure there returns \<open>None\<close>.
\<close>

definition get_asyn_port_from_record :: "shell_state \<Rightarrow> record_instance \<Rightarrow> nat option" where
  "get_asyn_port_from_record st inst =
     (case (case ri_fields inst ''INP'' of
              Some f \<Rightarrow> Some f
            | None \<Rightarrow> ri_fields inst ''OUT'') of
        None \<Rightarrow> None
      | Some rec_field \<Rightarrow>
          (let value = py_strip (field_value rec_field)
           in if startswith value ''@asyn'' then
                (case py_split ''@asyn'' value of
                   _ # piece # _ \<Rightarrow>
                     (let asyn_args = py_strip_chars '' ()'' piece
                      in case py_split '','' asyn_args of
                           asyn_port # _ \<Rightarrow> asyn_ports st (py_strip asyn_port)
                         | [] \<Rightarrow> None)
                 | _ \<Rightarrow> None)
              else None))"

record what_record =
  wr_name :: string
  wr_owner :: "string option"
  wr_instances :: "record_instance list"
  wr_asyn_ports :: "asyn_port option list"
  wr_ioc :: "ioc_metadata option"

text \<open>
  \<open>whatrec\<close>. A record instance is an object without a truth value of its own, so
  \<open>not v3_inst\<close> holds exactly when the lookup gave \<open>None\<close>. The returned port list
  holds port objects and, where the parent's name is not in the registry, \<open>None\<close>.
\<close>

definition whatrec :: "shell_state \<Rightarrow> string \<Rightarrow> string option \<Rightarrow> bool \<Rightarrow> what_record option" where
  "whatrec state rec field include_pva =
     (let v3_inst = database state rec;
          pva_inst = (if include_pva then pva_database state rec else None)
      in if v3_inst = None \<and> pva_inst = None then None
         else
           (let (instances, ports) =
                  (case v3_inst of
                     None \<Rightarrow> ([], [])
                   | Some inst \<Rightarrow>
                       ([inst],
                        (case get_asyn_port_from_record state inst of
                           None \<Rightarrow> []
                         | Some r \<Rightarrow>
                             (let asyn_port = port_store state r
                              in case port_parent asyn_port of
                                   None \<Rightarrow> [Some asyn_port]
                                 | Some parent_port \<Rightarrow>
                                     [map_option (port_store state) (asyn_ports state parent_port),
                                      Some asyn_port]))));
                instances1 = (case pva_inst of None \<Rightarrow> instances | Some inst \<Rightarrow> instances @ [inst])
            in Some \<lparr>wr_name = rec, wr_owner = None, wr_instances = instances1,
                     wr_asyn_ports = ports, wr_ioc = None\<rparr>))"

section \<open>The path rule and the record merge as the specification words them\<close>

text \<open>
  The specification's path rule: among the configured prefixes the absolute file name
  starts with, the longest one is rewritten. \<open>longest_match\<close> keeps the earlier of two
  matching prefixes of the same length.
\<close>

fun longest_match :: "(string \<times> string) list \<Rightarrow> string \<Rightarrow> (string \<times> string) option" where
  "longest_match [] filename = None"
| "longest_match ((from, to) # items) filename =
     (case longest_match items filename of
        None \<Rightarrow> (if startswith filename from then Some (from, to) else None)
      | Some (from', to') \<Rightarrow>
          (if startswith filename from \<and> length from' \<le> length from then Some (from, to)
           else Some (from', to')))"

definition spec_fix_path :: "shell_state \<Rightarrow> string \<Rightarrow> path" where
  "spec_fix_path st filename =
     (case (if isabs filename then longest_match (standin_directories st) filename else None) of
        Some (from, to) \<Rightarrow> Path (to @ drop (length from) filename)
      | None \<Rightarrow> Div (working_directory st) (Path filename))"

text \<open>
  The specification's merge rule for a record that is declared again: the later field
  values overwrite the earlier ones and the provenance is appended.
\<close>

definition merge_instance :: "record_instance \<Rightarrow> record_instance \<Rightarrow> record_instance" where
  "merge_instance entry rec =
     entry\<lparr>ri_context := ri_context entry @ ri_context rec,
           ri_fields := ri_fields entry ++ ri_fields rec\<rparr>"

section \<open>Concrete states, files and scripts\<close>

text \<open>
  \<open>ShellState()\<close> with the working directory \<open>/ioc\<close>, and a small file system with a
  line parser that is enough for the scripts below: words are separated by single
  blanks, a line \<open>< name\<close> is an input redirect, and the word \<open>$(F)\<close> is replaced by the
  macro \<open>F\<close>.
\<close>

definition initial_state :: shell_state where
  "initial_state =
     \<lparr>prompt = ''epics>'', variables = Map.empty, string_encoding = ''latin-1'',
      ioc_initialized = False, standin_directories = [], working_directory = Path ''/ioc'',
      database_definition = None, database = Map.empty, pva_database = Map.empty,
      load_context = [], asyn_ports = Map.empty, loaded_files = Map.empty,
      macro_context = Map.empty,
      ioc_info = \<lparr>md_name = ''ioc'', md_script = ''/ioc/st.cmd'', md_base_version = ''3.15'',
                  md_database_version_spec = 3, md_loaded_files = Map.empty\<rparr>,
      port_store = (\<lambda>_. make_port AsynSerialPort [] [] []), next_port = 0, next_ctx = 0\<rparr>"

fun example_resolve :: "path \<Rightarrow> string" where
  "example_resolve (Path s) = s"
| "example_resolve (Div p q) =
     (if isabs (example_resolve q) then example_resolve q
      else example_resolve p @ ''/'' @ example_resolve q)"

definition example_files :: "(string \<times> string) list" where
  "example_files =
     [(''/ioc/st.cmd'', ''epicsEnvSet F b.cmd'' @ [CHR 0x0A] @ ''< a.cmd''),
      (''/ioc/a.cmd'', ''< $(F)''),
      (''/ioc/b.cmd'', ''epicsEnvSet F c.cmd'' @ [CHR 0x0A] @ ''< a.cmd'' @ [CHR 0x0A] @ ''dbl''),
      (''/ioc/c.cmd'', ''dbl''),
      (''/ioc/base.dbd'', ''recordtype(ao) {}''),
      (''/ioc/recs.db'', ''record(ao, $(P)rbv) {}'')]"

definition example_parse ::
  "string \<Rightarrow> full_load_context \<Rightarrow> string \<Rightarrow> (string \<rightharpoonup> string) \<Rightarrow> string \<Rightarrow> iocsh_result" where
  "example_parse line context prmpt macros encoding =
     (let expand = (\<lambda>w. if w = ''$(F)'' then or_empty (macros ''F'') else w);
          wrds = map expand (filter (\<lambda>w. w \<noteq> []) (py_split '' '' line));
          blank = \<lparr>res_context = context, res_line = line, res_argv = [],
                   res_redirects = [], res_error = None, res_result = RNone\<rparr>
      in case wrds of
           [] \<Rightarrow> blank
         | w # ws \<Rightarrow>
             (if w = ''<''
              then blank\<lparr>res_redirects :=
                     [\<lparr>redir_fileno = 0, redir_name = or_empty (arg ws 0), redir_mode = ''r''\<rparr>]\<rparr>
              else blank\<lparr>res_argv := w # ws\<rparr>))"

definition example_record :: record_instance where
  "example_record =
     \<lparr>ri_context = [(''/ioc/recs.db'', 1)], ri_name = ''test:rbv'', ri_record_type = ''ao'',
      ri_fields = [''INP'' \<mapsto> \<lparr>field_dtype = ''DBF_INLINK'', field_name = ''INP'',
                                 field_value = ''@asyn(P1,0,1)RBV'',
                                 field_context = [(''/ioc/recs.db'', 2)]\<rparr>],
      ri_is_pva = False, ri_metadata = []\<rparr>"

definition example_group :: record_instance where
  "example_group =
     \<lparr>ri_context = [(''/ioc/recs.db'', 5)], ri_name = ''test:grp'', ri_record_type = ''PVA'',
      ri_fields = [''rbv'' \<mapsto> \<lparr>field_dtype = ''scalar'', field_name = ''rbv'',
                                 field_value = ''test:rbv.VAL'',
                                 field_context = [(''/ioc/recs.db'', 6)]\<rparr>],
      ri_is_pva = True, ri_metadata = []\<rparr>"

definition example_env :: env where
  "example_env =
     \<lparr>is_absolute = (\<lambda>p. isabs (example_resolve p)),
      path_exists = (\<lambda>p. True),
      resolve = example_resolve,
      read_text_file_with_hash =
        (\<lambda>fn. case map_of example_files fn of
                None \<Rightarrow> Inl (OSError fn)
              | Some contents \<Rightarrow> Inr (''sha256:'' @ fn, contents)),
      parse_iocsh_line = example_parse,
      definitions_to_dict = (\<lambda>s. Inr [(''P'', ''test:'')]),
      get_macros = (\<lambda>m. []),
      database_from_string = (\<lambda>contents version fn macros. Inr (Schema fn [''ao''])),
      database_from_file =
        (\<lambda>fn dbd macros version.
           Inr \<lparr>db_records = [(''test:rbv'', example_record)],
                db_pva_groups = [(''test:grp'', example_group)]\<rparr>),
      shell_commands =
        [(''drvAsynMotorConfigure'',
          [(''port_name'', ''str''), (''driver_name'', ''str''),
           (''card_num'', ''int''), (''num_axes'', ''int'')]),
         (''EthercatMCCreateController'',
          [(''motor_port'', ''str''), (''asyn_port'', ''str''), (''num_axes'', ''int''),
           (''move_poll_rate'', ''float''), (''idle_poll_rate'', ''float'')]),
         (''adsAsynPortDriverConfigure'', [(''portName'', ''str'')]),
         (''EthercatMCCreateAxis'',
          [(''motor_port'', ''str''), (''axis_num'', ''int''), (''amplifier_flags'', ''int'')])],
      default_base_version = ''3.15''\<rparr>"

text \<open>A state with a serial port \<open>P1\<close>, and one with a multi-device port \<open>MD\<close>.\<close>

definition serial_state :: shell_state where
  "serial_state =
     register_port initial_state ''P1''
       (make_port AsynSerialPort [] ''P1'' [(''ttyName'', Some ''/dev/ttyS0'')])"

definition multi_state :: shell_state where
  "multi_state =
     register_port initial_state ''MD''
       ((make_port AsynPortMultiDevice [] ''MD'' [])
          \<lparr>port_devices := [''0'' \<mapsto> \<lparr>dev_options = Map.empty\<rparr>]\<rparr>)"

text \<open>
  A container that already holds the record \<open>test:rbv\<close>, and a loaded IOC whose shell
  state declares a record of the same name with another field and provenance.
\<close>

definition other_record :: record_instance where
  "other_record =
     \<lparr>ri_context = [(''/ioc2/recs.db'', 1)], ri_name = ''test:rbv'', ri_record_type = ''ao'',
      ri_fields = [''OUT'' \<mapsto> \<lparr>field_dtype = ''DBF_OUTLINK'', field_name = ''OUT'',
                                 field_value = ''@asyn(P2,0,1)SET'',
                                 field_context = [(''/ioc2/recs.db'', 2)]\<rparr>],
      ri_is_pva = False, ri_metadata = []\<rparr>"

definition example_container :: script_container where
  "example_container =
     \<lparr>sc_database = [''test:rbv'' \<mapsto> example_record], sc_pva_database = Map.empty,
      sc_scripts = Map.empty, sc_loaded_files = Map.empty\<rparr>"

definition example_loaded :: loaded_ioc where
  "example_loaded =
     \<lparr>li_name = ''ioc2'', li_path = ''/ioc2/st.cmd'',
      li_metadata = (ioc_info initial_state)\<lparr>md_name := ''ioc2'', md_script := ''/ioc2/st.cmd''\<rparr>,
      li_shell_state = initial_state\<lparr>database := [''test:rbv'' \<mapsto> other_record]\<rparr>,
      li_script = []\<rparr>"

text \<open>A stand-in table in which a shorter prefix comes before a longer one.\<close>

definition standin_state :: shell_state where
  "standin_state =
     initial_state\<lparr>standin_directories :=
       [(''/reg/'', ''/mnt/reg/''), (''/reg/g/pcds/'', ''/mnt/pcds/'')]\<rparr>"

text \<open>
  A state with the schema attached, and the state after the file \<open>recs.db\<close>, which
  declares the record \<open>test:rbv\<close> and the structured group \<open>test:grp\<close>, was loaded
  into it once.
\<close>

definition schema_state :: shell_state where
  "schema_state =
     initial_state\<lparr>database_definition := Some (Schema ''/ioc/base.dbd'' [''ao''])\<rparr>"

definition loaded_once :: shell_state where
  "loaded_once = snd (handle_dbLoadRecords example_env schema_state [''recs.db'', ''P=test:''])"

text \<open>
  A line parser that also knows one quoted line, \<open>iocshCmd "dbLoadRecords recs.db P=test:"\<close>,
  whose second word is the quoted command.
\<close>

definition quoting_parse ::
  "string \<Rightarrow> full_load_context \<Rightarrow> string \<Rightarrow> (string \<rightharpoonup> string) \<Rightarrow> string \<Rightarrow> iocsh_result" where
  "quoting_parse line context prmpt macros encoding =
     (if line = ''iocshCmd '' @ [CHR 0x22] @ ''dbLoadRecords recs.db P=test:'' @ [CHR 0x22]
      then \<lparr>res_context = context, res_line = line,
            res_argv = [''iocshCmd'', ''dbLoadRecords recs.db P=test:''],
            res_redirects = [], res_error = None, res_result = RNone\<rparr>
      else example_parse line context prmpt macros encoding)"

definition quoting_env :: env where
  "quoting_env = example_env\<lparr>parse_iocsh_line := quoting_parse\<rparr>"

definition quoted_line :: string where
  "quoted_line = ''iocshCmd '' @ [CHR 0x22] @ ''dbLoadRecords recs.db P=test:'' @ [CHR 0x22]"

text \<open>
  The state in which \<open>/ioc/a.cmd\<close> is entered for the second time when \<open>/ioc/st.cmd\<close>
  runs: \<open>st.cmd\<close> (line 2) has included \<open>a.cmd\<close>, whose line 1, \<open>< $(F)\<close>, has
  included \<open>b.cmd\<close>; \<open>b.cmd\<close> has set \<open>F\<close> to \<open>c.cmd\<close> and includes \<open>a.cmd\<close> again
  on its line 2.
\<close>

definition reentrant_state :: shell_state where
  "reentrant_state =
     initial_state
       \<lparr>load_context :=
          [\<lparr>ctx_id = 0, ctx_name = ''/ioc/st.cmd'', ctx_line = 2\<rparr>,
           \<lparr>ctx_id = 1, ctx_name = ''/ioc/a.cmd'', ctx_line = 1\<rparr>,
           \<lparr>ctx_id = 2, ctx_name = ''/ioc/b.cmd'', ctx_line = 2\<rparr>],
        next_ctx := 3,
        macro_context := [''F'' \<mapsto> ''c.cmd'']\<rparr>"

text \<open>
  The references to a port that the record query is stated for: the field value, without
  surrounding white space, is \<open>@asyn(\<close> and the port name, followed by a comma and
  anything, or by nothing but blanks and parentheses. The name is not empty and has no
  blank, parenthesis, comma, \<open>@\<close> or white space in it.
\<close>

definition asyn_reference :: "string \<Rightarrow> string \<Rightarrow> bool" where
  "asyn_reference value pname =
     (let v = py_strip value; rest = drop (length (''@asyn('' @ pname)) v
      in startswith v (''@asyn('' @ pname) \<and> pname \<noteq> []
         \<and> (\<forall>c \<in> set pname. c \<notin> set '' (),@'' \<and> \<not> isspace c)
         \<and> (case rest of [] \<Rightarrow> True | c # _ \<Rightarrow> c = CHR '','' \<or> set rest \<subseteq> set '' ()''))"

text \<open>
  A state in which the serial port \<open>P1\<close> and, on it, the motor controller \<open>M1\<close> were
  configured and a motor record refers to \<open>M1\<close>.
\<close>

definition motor_record :: record_instance where
  "motor_record =
     \<lparr>ri_context = [(''/ioc/recs.db'', 9)], ri_name = ''test:mtr'', ri_record_type = ''motor'',
      ri_fields = [''OUT'' \<mapsto> \<lparr>field_dtype = ''DBF_OUTLINK'', field_name = ''OUT'',
                                 field_value = ''@asyn(M1,0)'',
                                 field_context = [(''/ioc/recs.db'', 10)]\<rparr>],
      ri_is_pva = False, ri_metadata = []\<rparr>"

definition motor_state :: shell_state where
  "motor_state =
     (snd (handle_EthercatMCCreateController example_env
             (snd (handle_drvAsynSerialPortConfigure initial_state [''P1'', ''/dev/ttyS0'']))
             [''M1'', ''P1'', ''2'']))
       \<lparr>database := [''test:rbv'' \<mapsto> example_record, ''test:mtr'' \<mapsto> motor_record]\<rparr>"

definition port_names :: "what_record \<Rightarrow> string option list" where
  "port_names w = map (map_option port_name) (wr_asyn_ports w)"

text \<open>
  A start-up script that configures the serial port \<open>P1\<close>, attaches the schema and loads
  a records file whose record \<open>test:temp\<close> has the input link \<open>@asyn(P1)TEMP\<close>: the port
  with the address left out. \<open>link_state\<close> is the state the interpreter ends in.
  \<open>inp_value\<close> reads the \<open>INP\<close> value of a stored record and \<open>registered_name\<close> the
  name of the port object a name is bound to.
\<close>

definition temp_record :: record_instance where
  "temp_record =
     \<lparr>ri_context = [(''/ioc/recs.db'', 1)], ri_name = ''test:temp'', ri_record_type = ''ai'',
      ri_fields = [''INP'' \<mapsto> \<lparr>field_dtype = ''DBF_INLINK'', field_name = ''INP'',
                                 field_value = ''@asyn(P1)TEMP'',
                                 field_context = [(''/ioc/recs.db'', 2)]\<rparr>],
      ri_is_pva = False, ri_metadata = []\<rparr>"

definition link_env :: env where
  "link_env =
     example_env\<lparr>database_from_file :=
       (\<lambda>fn dbd macros version.
          Inr \<lparr>db_records = [(''test:temp'', temp_record)], db_pva_groups = []\<rparr>)\<rparr>"

definition link_script :: "string list" where
  "link_script =
     [''drvAsynSerialPortConfigure P1 /dev/ttyS0'',
      ''dbLoadDatabase base.dbd'',
      ''dbLoadRecords recs.db P=test:'']"

definition link_state :: shell_state where
  "link_state =
     (case interpret_shell_script link_env 5 link_script ''/ioc/st.cmd'' True False initial_state of
        Some (rs, exc, st) \<Rightarrow> st
      | None \<Rightarrow> initial_state)"

definition inp_value :: "shell_state \<Rightarrow> string \<Rightarrow> string option" where
  "inp_value st rec =
     (case database st rec of
        None \<Rightarrow> None
      | Some inst \<Rightarrow> map_option field_value (ri_fields inst ''INP''))"

definition registered_name :: "shell_state \<Rightarrow> string \<Rightarrow> string option" where
  "registered_name st name = map_option (\<lambda>r. port_name (port_store st r)) (asyn_ports st name)"

text \<open>
  \<open>registers cls name parent st st'\<close>: going from \<open>st\<close> to \<open>st'\<close>, a new port object
  of the class, with the name and the parent, was bound to the name in the registry, and
  no other name was bound or unbound.
\<close>

definition registers ::
  "port_class \<Rightarrow> string \<Rightarrow> string option \<Rightarrow> shell_state \<Rightarrow> shell_state \<Rightarrow> bool" where
  "registers cls name parent st st' =
     (asyn_ports st' name = Some (next_port st)
      \<and> port_class (port_store st' (next_port st)) = cls
      \<and> port_name (port_store st' (next_port st)) = name
      \<and> port_parent (port_store st' (next_port st)) = parent
      \<and> (\<forall>other. other \<noteq> name \<longrightarrow> asyn_ports st' other = asyn_ports st other))"

text \<open>\<open>keeps_stack st st'\<close>: the load-context stack and the next identity are the same.\<close>

definition keeps_stack :: "shell_state \<Rightarrow> shell_state \<Rightarrow> bool" where
  "keeps_stack st st' = (load_context st' = load_context st \<and> next_ctx st' = next_ctx st)"

section \<open>The load-order state machine\<close>

text \<open>
  C1. Loading records while no schema is attached raises, whatever the arguments, and
  leaves the state as it was. Loading a schema when one is attached and the IOC is not
  initialized returns the marker \<open>whatrecord: TODO multiple dbLoadDatabase\<close> and
  changes nothing. Once \<open>ioc_initialized\<close> is set, both commands raise.
\<close>

theorem load_order_state_machine:
  "(database_definition st = None \<longrightarrow>
      (\<exists>ex. handle_dbLoadRecords E st args = (Inl ex, st)))
   \<and> (database_definition st \<noteq> None \<and> \<not> ioc_initialized st \<longrightarrow>
      handle_dbLoadDatabase E st (dbd # rest) = (Inr RMultipleDbLoadDatabase, st))
   \<and> (ioc_initialized st \<longrightarrow>
      (\<exists>ex. handle_dbLoadDatabase E st args = (Inl ex, st))
      \<and> (\<exists>ex. handle_dbLoadRecords E st args = (Inl ex, st)))"
  by (auto simp add: handle_dbLoadRecords_def handle_dbLoadDatabase_def
      split: option.splits list.splits)

theorem load_order_state_machine_witness:
  "(\<exists>ex. handle_dbLoadRecords example_env initial_state [''recs.db'', ''P=test:''] =
           (Inl ex, initial_state))
   \<and> handle_dbLoadDatabase example_env
        (initial_state\<lparr>database_definition := Some (Schema ''/ioc/base.dbd'' [''ao''])\<rparr>)
        [''base.dbd''] =
      (Inr RMultipleDbLoadDatabase,
       initial_state\<lparr>database_definition := Some (Schema ''/ioc/base.dbd'' [''ao''])\<rparr>)
   \<and> (\<exists>ex. handle_dbLoadDatabase example_env (initial_state\<lparr>ioc_initialized := True\<rparr>)
              [''base.dbd''] = (Inl ex, initial_state\<lparr>ioc_initialized := True\<rparr>))
   \<and> (\<exists>ex. handle_dbLoadRecords example_env (initial_state\<lparr>ioc_initialized := True\<rparr>)
              [''recs.db'', ''P=test:''] = (Inl ex, initial_state\<lparr>ioc_initialized := True\<rparr>))"
  using load_order_state_machine [of initial_state example_env "[''recs.db'', ''P=test:'']"]
    load_order_state_machine
      [of "initial_state\<lparr>database_definition := Some (Schema ''/ioc/base.dbd'' [''ao''])\<rparr>"
          example_env _ "''base.dbd''" "[]"]
    load_order_state_machine
      [of "initial_state\<lparr>ioc_initialized := True\<rparr>" example_env "[''base.dbd'']"]
    load_order_state_machine
      [of "initial_state\<lparr>ioc_initialized := True\<rparr>" example_env "[''recs.db'', ''P=test:'']"]
  by (simp add: initial_state_def)

section \<open>Port options\<close>

text \<open>
  C7. \<open>handle_asynSetOption\<close>: when no port of the name is registered the subscript
  raises \<open>KeyError\<close> and the state, the registry with it, is unchanged. When the name
  is registered, the option is stored under its key in the port's options, or, for a
  multi-device port, in the options of the device at the given address; the registry
  is the same afterwards.
\<close>

theorem set_option_on_registered_port:
  "(asyn_ports st name = None \<longrightarrow>
      handle_asynSetOption st (name # addr # key # value # rest) = (Inl (KeyError name), st))
   \<and> (\<forall>r. asyn_ports st name = Some r \<and> port_class (port_store st r) \<noteq> AsynPortMultiDevice \<longrightarrow>
        (\<exists>st'. handle_asynSetOption st (name # addr # key # value # rest) = (Inr RNone, st')
           \<and> asyn_ports st' = asyn_ports st
           \<and> port_options (port_store st' r) key =
               Some \<lparr>opt_context = get_load_context st, opt_key = key, opt_value = value\<rparr>))
   \<and> (\<forall>r dev. asyn_ports st name = Some r \<and> port_class (port_store st r) = AsynPortMultiDevice
          \<and> port_devices (port_store st r) addr = Some dev \<longrightarrow>
        (\<exists>st' dev'. handle_asynSetOption st (name # addr # key # value # rest) = (Inr RNone, st')
           \<and> asyn_ports st' = asyn_ports st
           \<and> port_devices (port_store st' r) addr = Some dev'
           \<and> dev_options dev' key =
               Some \<lparr>opt_context = get_load_context st, opt_key = key, opt_value = value\<rparr>))"
  by (simp add: handle_asynSetOption_def Let_def)

theorem set_option_on_registered_port_witness:
  "handle_asynSetOption initial_state [''P1'', ''0'', ''baud'', ''9600''] =
     (Inl (KeyError ''P1''), initial_state)
   \<and> (\<exists>st'. handle_asynSetOption serial_state [''P1'', ''0'', ''baud'', ''9600''] = (Inr RNone, st')
         \<and> asyn_ports st' = asyn_ports serial_state
         \<and> port_options (port_store st' 0) ''baud'' =
             Some \<lparr>opt_context = [], opt_key = ''baud'', opt_value = ''9600''\<rparr>)
   \<and> (\<exists>st' dev'. handle_asynSetOption multi_state [''MD'', ''0'', ''baud'', ''9600''] = (Inr RNone, st')
         \<and> asyn_ports st' = asyn_ports multi_state
         \<and> port_devices (port_store st' 0) ''0'' = Some dev'
         \<and> dev_options dev' ''baud'' =
             Some \<lparr>opt_context = [], opt_key = ''baud'', opt_value = ''9600''\<rparr>)"
proof -
  have a: "asyn_ports initial_state ''P1'' = None"
    by (simp add: initial_state_def)
  have b: "asyn_ports serial_state ''P1'' = Some 0
           \<and> port_class (port_store serial_state 0) \<noteq> AsynPortMultiDevice"
    by (simp add: serial_state_def register_port_def make_port_def initial_state_def)
  have c: "asyn_ports multi_state ''MD'' = Some 0
           \<and> port_class (port_store multi_state 0) = AsynPortMultiDevice
           \<and> port_devices (port_store multi_state 0) ''0'' = Some \<lparr>dev_options = Map.empty\<rparr>"
    by (simp add: multi_state_def register_port_def make_port_def initial_state_def)
  have d: "get_load_context serial_state = [] \<and> get_load_context multi_state = []"
    by (simp add: serial_state_def multi_state_def register_port_def get_load_context_def
        initial_state_def)
  show ?thesis
    using a b c d
      set_option_on_registered_port [of initial_state "''P1''" "''0''" "''baud''" "''9600''" "[]"]
      set_option_on_registered_port [of serial_state "''P1''" "''0''" "''baud''" "''9600''" "[]"]
      set_option_on_registered_port [of multi_state "''MD''" "''0''" "''baud''" "''9600''" "[]"]
    by simp
qed

section \<open>Commands without a handler\<close>

text \<open>
  C8. For a command name that has no registered handler, \<open>handle_command\<close> returns
  what \<open>unhandled\<close> returns, \<open>None\<close>, and the state is the one it was given. The
  line that carries such a command is yielded with that result and without an error,
  in strict mode too, so the script goes on.
\<close>

theorem unknown_command_unhandled:
  assumes "\<not> registered E command"
  shows "handle_command E st command args = (Inr RNone, st)
         \<and> (\<forall>shresult raise_on_error. res_argv shresult = command # args \<longrightarrow>
              dispatch_line E shresult raise_on_error st =
                Done [shresult\<lparr>res_result := RNone\<rparr>] None st)"
proof -
  from assms have c: "command \<noteq> ''command''" and h: "handlers E command = None"
    by (simp_all add: registered_def)
  have hc: "handle_command E st command args = (Inr RNone, st)"
    using c h by (cases args) (simp_all add: unhandled_def)
  then show ?thesis
    by (simp add: dispatch_line_def after_yield_def)
qed

theorem unknown_command_unhandled_witness:
  "\<not> registered example_env ''asynReport''
   \<and> handle_command example_env initial_state ''asynReport'' [''2''] = (Inr RNone, initial_state)
   \<and> dispatch_line example_env (example_parse ''asynReport 2'' [] ''epics>'' Map.empty ''latin-1'')
        True initial_state =
      Done [(example_parse ''asynReport 2'' [] ''epics>'' Map.empty ''latin-1'')\<lparr>res_result := RNone\<rparr>]
        None initial_state"
proof -
  have r: "\<not> registered example_env ''asynReport''"
    by (simp add: registered_def handlers_def found_handlers_def example_env_def)
  have p: "res_argv (example_parse ''asynReport 2'' [] ''epics>'' Map.empty ''latin-1'') =
             ''asynReport'' # [''2'']"
    by (simp add: example_parse_def py_split_def startswith_def)
  show ?thesis
    using r p unknown_command_unhandled [OF r, of initial_state "[''2'']"]
    by simp
qed

section \<open>Merging a loaded IOC into the container\<close>

text \<open>
  C3, as the code has it. \<open>add_script\<close> merges the record store, the structured-record
  store and the file ledger of the added instance key by key, and for each key the
  added instance's value wins: a record whose name is already in the container is
  replaced by the added instance's record as a whole.
\<close>

theorem add_script_last_write_wins:
  "sc_database (add_script c loaded) k =
     (case database (li_shell_state loaded) k of Some rec \<Rightarrow> Some rec | None \<Rightarrow> sc_database c k)
   \<and> sc_pva_database (add_script c loaded) k =
     (case pva_database (li_shell_state loaded) k of
        Some rec \<Rightarrow> Some rec | None \<Rightarrow> sc_pva_database c k)
   \<and> sc_loaded_files (add_script c loaded) k =
     (case loaded_files (li_shell_state loaded) k of
        Some sha \<Rightarrow> Some sha | None \<Rightarrow> sc_loaded_files c k)
   \<and> sc_scripts (add_script c loaded) (md_script (li_metadata loaded)) = Some loaded"
  by (simp add: add_script_def map_add_def split: option.splits)

text \<open>
  C3 as stated fails: the container holds \<open>test:rbv\<close> with the field \<open>INP\<close>; after
  adding an instance that declares \<open>test:rbv\<close> with the field \<open>OUT\<close>, the container
  holds the added record alone. Its \<open>INP\<close> is gone and its provenance is the added
  record's, where the field-level merge keeps \<open>INP\<close> and appends the provenance.
\<close>

theorem add_script_replaces_record:
  "sc_database (add_script example_container example_loaded) ''test:rbv'' = Some other_record
   \<and> sc_database example_container ''test:rbv'' = Some example_record
   \<and> ri_fields other_record ''INP'' = None
   \<and> ri_fields (merge_instance example_record other_record) ''INP'' \<noteq> None
   \<and> ri_context other_record \<noteq> ri_context (merge_instance example_record other_record)"
  by (simp add: add_script_def example_container_def example_loaded_def other_record_def
      example_record_def merge_instance_def initial_state_def)

section \<open>Path resolution\<close>

lemma find_sep_prefix:
  "sep \<noteq> [] \<Longrightarrow> startswith s sep \<Longrightarrow> find_sep sep s = Some ([], drop (length sep) s)"
  by (cases s) (auto simp add: startswith_def)

lemma fix_path_loop_find:
  "fix_path_loop items filename =
     (case find (\<lambda>(from, to). startswith filename from) items of
        None \<Rightarrow> None
      | Some (from, to) \<Rightarrow>
          Some (if from = [] then Inl (ValueError ''empty separator'')
                else Inr (Path (to @ drop (length from) filename))))"
proof (induction items)
  case Nil
  then show ?case by simp
next
  case (Cons item items)
  obtain "from" to where item: "item = (from, to)" by (cases item)
  show ?case
    using Cons.IH by (simp add: item py_split1_def find_sep_prefix)
qed

text \<open>
  C5, as the code has it. For an absolute file name the stand-in table is searched in
  its own order and the first key the name starts with is rewritten to its value (an
  empty key raises \<open>ValueError\<close>); when no key matches, and for a relative name, the
  name is joined to the working directory.
\<close>

theorem fix_path_first_match:
  "fix_path st filename =
     (if isabs filename then
        (case find (\<lambda>(from, to). startswith filename from) (standin_directories st) of
           None \<Rightarrow> Inr (Div (working_directory st) (Path filename))
         | Some (from, to) \<Rightarrow>
             (if from = [] then Inl (ValueError ''empty separator'')
              else Inr (Path (to @ drop (length from) filename))))
      else Inr (Div (working_directory st) (Path filename)))"
  by (simp add: fix_path_def fix_path_loop_find split: option.splits)

text \<open>
  C5 as stated fails: with the table \<open>/reg/ \<mapsto> /mnt/reg/\<close>, \<open>/reg/g/pcds/ \<mapsto> /mnt/pcds/\<close>
  in this order, both keys match \<open>/reg/g/pcds/ioc/st.cmd\<close>; the code rewrites the
  first, shorter one, and the longest-prefix rule would rewrite the second.
\<close>

theorem fix_path_not_longest:
  "fix_path standin_state ''/reg/g/pcds/ioc/st.cmd'' = Inr (Path ''/mnt/reg/g/pcds/ioc/st.cmd'')
   \<and> spec_fix_path standin_state ''/reg/g/pcds/ioc/st.cmd'' = Path ''/mnt/pcds/ioc/st.cmd''"
  by (simp add: fix_path_def spec_fix_path_def standin_state_def initial_state_def isabs_def
      startswith_def py_split1_def)

section \<open>Merging records that are declared again\<close>

lemma example_env_sel [simp]:
  "is_absolute example_env = (\<lambda>p. isabs (example_resolve p))"
  "path_exists example_env = (\<lambda>p. True)"
  "resolve example_env = example_resolve"
  "read_text_file_with_hash example_env =
     (\<lambda>fn. case map_of example_files fn of
             None \<Rightarrow> Inl (OSError fn)
           | Some contents \<Rightarrow> Inr (''sha256:'' @ fn, contents))"
  "parse_iocsh_line example_env = example_parse"
  "definitions_to_dict example_env = (\<lambda>s. Inr [(''P'', ''test:'')])"
  "get_macros example_env = (\<lambda>m. [])"
  "database_from_string example_env = (\<lambda>contents version fn macros. Inr (Schema fn [''ao'']))"
  "database_from_file example_env =
     (\<lambda>fn dbd macros version.
        Inr \<lparr>db_records = [(''test:rbv'', example_record)],
             db_pva_groups = [(''test:grp'', example_group)]\<rparr>)"
  "default_base_version example_env = ''3.15''"
  by (simp_all add: example_env_def)

text \<open>
  In the classic namespace the merge is the one the specification describes: a record
  of the file whose name is already in \<open>database\<close> leaves the stored instance with
  the file's fields laid over its own and the file's provenance appended; the
  structured store is not touched by this loop.
\<close>

lemma merge_records_other:
  "name \<notin> fst ` set items \<Longrightarrow> database (merge_records context items st) name = database st name"
  by (induction items arbitrary: st) (auto split: option.splits)

lemma merge_records_pva: "pva_database (merge_records context items st) = pva_database st"
  by (induction items arbitrary: st) (auto split: option.splits)

lemma merge_records_present:
  assumes "distinct (map fst items)" and "(name, rec) \<in> set items"
    and "database st name = Some entry"
  shows "database (merge_records context items st) name = Some (merge_instance entry rec)"
  using assms
proof (induction items arbitrary: st)
  case Nil
  then show ?case by simp
next
  case (Cons item items)
  obtain n r where item: "item = (n, r)" by (cases item)
  show ?case
  proof (cases "n = name")
    case True
    with Cons.prems item have r: "r = rec" and notin: "name \<notin> fst ` set items"
      by (auto simp add: rev_image_eqI)
    show ?thesis
      using Cons.prems(3) True r notin
      by (simp add: item merge_records_other merge_instance_def)
  next
    case False
    with Cons.prems item have "(name, rec) \<in> set items" "distinct (map fst items)" by auto
    moreover have "database
        (case database st n of
          None \<Rightarrow> st\<lparr>database := (database st)(n \<mapsto> r\<lparr>ri_context := context @ ri_context r\<rparr>)\<rparr>
        | Some entry \<Rightarrow> st\<lparr>database := (database st)(n \<mapsto>
                  entry\<lparr>ri_context := ri_context entry @ ri_context r,
                        ri_fields := ri_fields entry ++ ri_fields r\<rparr>)\<rparr>) name = Some entry"
      using False Cons.prems(3) by (simp split: option.splits)
    ultimately show ?thesis
      using Cons.IH by (simp add: item)
  qed
qed

text \<open>
  In the structured namespace the loop looks the name up in \<open>pva_database\<close> and then
  subscripts \<open>database\<close>: a group that is already stored, and whose name is no classic
  record, raises \<open>KeyError\<close> with the stored group unchanged.
\<close>

lemma merge_pva_groups_present:
  "pva_database st name = Some entry \<Longrightarrow> database st name = None \<Longrightarrow>
   merge_pva_groups context ((name, rec) # items) st = (Inl (KeyError name), st)"
  by simp

lemma first_load:
  "fst (handle_dbLoadRecords example_env schema_state [''recs.db'', ''P=test:'']) =
     Inr (RShortLinterResults [''test:rbv''] [''test:grp''] [(''P'', ''test:'')])
   \<and> database loaded_once ''test:rbv'' = Some example_record
   \<and> pva_database loaded_once ''test:grp'' = Some example_group
   \<and> database loaded_once ''test:grp'' = None"
  by (simp add: loaded_once_def handle_dbLoadRecords_def schema_state_def initial_state_def
      load_file_def fix_path_def isabs_def startswith_def example_files_def
      get_load_context_def Let_def)

text \<open>
  C2 at a concrete input: the file \<open>recs.db\<close> is loaded a second time. The load raises
  \<open>KeyError\<close> for the group \<open>test:grp\<close>, and the stored group is the one of the first
  load, not the merge of the two.
\<close>

theorem second_load_raises:
  "fst (handle_dbLoadRecords example_env loaded_once [''recs.db'', ''P=test:'']) =
     Inl (KeyError ''test:grp'')
   \<and> pva_database (snd (handle_dbLoadRecords example_env loaded_once [''recs.db'', ''P=test:'']))
        ''test:grp'' = Some example_group
   \<and> Some example_group \<noteq> Some (merge_instance example_group example_group)"
  by (simp add: loaded_once_def handle_dbLoadRecords_def schema_state_def initial_state_def
      load_file_def fix_path_def isabs_def startswith_def example_files_def
      get_load_context_def Let_def merge_instance_def example_group_def)

section \<open>Strict mode and command re-invocation\<close>

lemma handlers_iocshCmd: "handlers E ''iocshCmd'' = Some handle_iocshCmd"
  by (simp add: handlers_def found_handlers_def)

lemma handle_command_iocshCmd:
  "handle_command E st ''iocshCmd'' (command # rest) =
     (Inr (IocshCmdArgs (get_load_context st) command), st)"
  by (simp add: handlers_iocshCmd handle_iocshCmd_def)

text \<open>
  C10. A line is interpreted in strict mode; its command is \<open>iocshCmd\<close> and the command
  it names raises when it is dispatched. The nested interpretation runs with
  \<open>raise_on_error = False\<close>: the line yields its own result and then the nested result
  with the failure recorded as its error, and nothing propagates. Interpreted directly in
  strict mode, the same command propagates the exception and yields nothing.
\<close>

theorem strict_mode_not_preserved:
  assumes "parse_iocsh_line E line (get_load_context st) (prompt st) (macro_context st)
             (string_encoding st) = shresult"
    and "\<not> error_truthy (res_error shresult)"
    and "filter (\<lambda>redir. redir_mode redir = ''r'') (res_redirects shresult) = []"
    and "res_argv shresult = ''iocshCmd'' # command # rest"
    and "parse_iocsh_line E command (get_load_context st) (prompt st) (macro_context st)
             (string_encoding st) = shresult2"
    and "\<not> error_truthy (res_error shresult2)"
    and "filter (\<lambda>redir. redir_mode redir = ''r'') (res_redirects shresult2) = []"
    and "res_argv shresult2 = c # args"
    and "res_result shresult2 = RNone"
    and "handle_command E st c args = (Inl ex, st1)"
  shows "interpret_shell_line E (Suc (Suc n)) line recurse True st =
           Some ([shresult\<lparr>res_result := IocshCmdArgs (get_load_context st) command\<rparr>,
                  shresult2\<lparr>res_error := Some (FailedToExecute ex)\<rparr>], None, st1)
         \<and> interpret_shell_line E (Suc n) command recurse True st = Some ([], Some ex, st1)"
proof -
  have outer: "line_action E line recurse True st =
                 Reinvoke (shresult\<lparr>res_result := IocshCmdArgs (get_load_context st) command\<rparr>)
                   command st"
    using assms(1-4)
    by (simp add: line_action_def dispatch_line_def after_yield_def handlers_iocshCmd handle_iocshCmd_def)
  have inner: "line_action E command recurse False st =
                 Done [shresult2\<lparr>res_error := Some (FailedToExecute ex)\<rparr>] None st1"
    using assms(5-10)
    by (simp add: line_action_def dispatch_line_def after_yield_def)
  have strict: "line_action E command recurse True st = Done [] (Some ex) st1"
    using assms(5-10)
    by (simp add: line_action_def dispatch_line_def after_yield_def)
  show ?thesis
    by (simp add: outer inner strict yield_first_def)
qed

lemma quoting_env_sel [simp]:
  "parse_iocsh_line quoting_env = quoting_parse"
  by (simp add: quoting_env_def)

lemma handlers_dbLoadRecords: "handlers E ''dbLoadRecords'' = Some (handle_dbLoadRecords E)"
  by (simp add: handlers_def found_handlers_def)

theorem strict_mode_not_preserved_witness:
  "interpret_shell_line quoting_env (Suc (Suc 0)) quoted_line True True initial_state =
     Some ([(quoting_parse quoted_line [] ''epics>'' Map.empty ''latin-1'')
              \<lparr>res_result := IocshCmdArgs [] ''dbLoadRecords recs.db P=test:''\<rparr>,
            (quoting_parse ''dbLoadRecords recs.db P=test:'' [] ''epics>'' Map.empty ''latin-1'')
              \<lparr>res_error := Some (FailedToExecute (RuntimeError ''dbd not yet loaded''))\<rparr>],
           None, initial_state)
   \<and> interpret_shell_line quoting_env (Suc 0) ''dbLoadRecords recs.db P=test:'' True True
        initial_state =
     Some ([], Some (RuntimeError ''dbd not yet loaded''), initial_state)"
proof -
  have ctx: "get_load_context initial_state = []" "prompt initial_state = ''epics>''"
    "macro_context initial_state = Map.empty" "string_encoding initial_state = ''latin-1''"
    by (simp_all add: get_load_context_def initial_state_def)
  have p1: "res_argv (quoting_parse quoted_line [] ''epics>'' Map.empty ''latin-1'') =
              ''iocshCmd'' # ''dbLoadRecords recs.db P=test:'' # []"
    "res_error (quoting_parse quoted_line [] ''epics>'' Map.empty ''latin-1'') = None"
    "res_redirects (quoting_parse quoted_line [] ''epics>'' Map.empty ''latin-1'') = []"
    by (simp_all add: quoting_parse_def quoted_line_def)
  have p2: "res_argv (quoting_parse ''dbLoadRecords recs.db P=test:'' [] ''epics>'' Map.empty
              ''latin-1'') = ''dbLoadRecords'' # [''recs.db'', ''P=test:'']"
    "res_error (quoting_parse ''dbLoadRecords recs.db P=test:'' [] ''epics>'' Map.empty
              ''latin-1'') = None"
    "res_redirects (quoting_parse ''dbLoadRecords recs.db P=test:'' [] ''epics>'' Map.empty
              ''latin-1'') = []"
    "res_result (quoting_parse ''dbLoadRecords recs.db P=test:'' [] ''epics>'' Map.empty
              ''latin-1'') = RNone"
    by (simp_all add: quoting_parse_def example_parse_def py_split_def startswith_def)
  have h: "handle_command quoting_env initial_state ''dbLoadRecords'' [''recs.db'', ''P=test:''] =
             (Inl (RuntimeError ''dbd not yet loaded''), initial_state)"
    by (simp add: handlers_dbLoadRecords handle_dbLoadRecords_def initial_state_def)
  show ?thesis
    using strict_mode_not_preserved
      [of quoting_env quoted_line initial_state
          "quoting_parse quoted_line [] ''epics>'' Map.empty ''latin-1''"
          "''dbLoadRecords recs.db P=test:''" "[]"
          "quoting_parse ''dbLoadRecords recs.db P=test:'' [] ''epics>'' Map.empty ''latin-1''"
          "''dbLoadRecords''" "[''recs.db'', ''P=test:'']"
          "RuntimeError ''dbd not yet loaded''" initial_state 0 True]
      ctx p1 p2 h
    by (simp add: error_truthy_def)
qed

section \<open>The load-context stack\<close>

text \<open>
  C9 at a concrete input. \<open>/ioc/a.cmd\<close> is interpreted while an entry for it, at the same
  line, is already on the stack. On exit \<open>list.remove\<close> deletes the first entry equal to
  the one pushed, which is the outer one (identity 1); the entry pushed by this call
  (identity 3) stays, now behind the entry of \<open>b.cmd\<close>. The stack after the call is not
  the stack before it.
\<close>

theorem reentrant_include_removes_other_entry:
  "load_context reentrant_state =
     [\<lparr>ctx_id = 0, ctx_name = ''/ioc/st.cmd'', ctx_line = 2\<rparr>,
      \<lparr>ctx_id = 1, ctx_name = ''/ioc/a.cmd'', ctx_line = 1\<rparr>,
      \<lparr>ctx_id = 2, ctx_name = ''/ioc/b.cmd'', ctx_line = 2\<rparr>]
   \<and> map_option (\<lambda>(rs, exc, st). (exc, load_context st))
       (interpret_shell_script example_env 5 (splitlines ''< $(F)'') ''/ioc/a.cmd'' True False
          reentrant_state) =
     Some (None,
           [\<lparr>ctx_id = 0, ctx_name = ''/ioc/st.cmd'', ctx_line = 2\<rparr>,
            \<lparr>ctx_id = 2, ctx_name = ''/ioc/b.cmd'', ctx_line = 2\<rparr>,
            \<lparr>ctx_id = 3, ctx_name = ''/ioc/a.cmd'', ctx_line = 1\<rparr>])"
  by code_simp

text \<open>
  The same in a whole run of \<open>/ioc/st.cmd\<close> from the initial state: the last line of
  \<open>b.cmd\<close> is parsed in a load context that names \<open>b.cmd\<close> before \<open>a.cmd\<close>, although
  \<open>a.cmd\<close> included \<open>b.cmd\<close>.
\<close>

lemma reentrant_run:
  "map_option (\<lambda>(rs, exc, st). (map (\<lambda>r. (res_line r, res_context r)) rs, exc, load_context st))
     (interpret_shell_script example_env 10
        (splitlines (''epicsEnvSet F b.cmd'' @ [CHR 0x0A] @ ''< a.cmd''))
        ''/ioc/st.cmd'' True False initial_state) =
   Some ([(''epicsEnvSet F b.cmd'', [(''/ioc/st.cmd'', 1)]),
          (''< a.cmd'', [(''/ioc/st.cmd'', 2)]),
          (''< $(F)'', [(''/ioc/st.cmd'', 2), (''/ioc/a.cmd'', 1)]),
          (''epicsEnvSet F c.cmd'', [(''/ioc/st.cmd'', 2), (''/ioc/a.cmd'', 1), (''/ioc/b.cmd'', 1)]),
          (''< a.cmd'', [(''/ioc/st.cmd'', 2), (''/ioc/a.cmd'', 1), (''/ioc/b.cmd'', 2)]),
          (''< $(F)'', [(''/ioc/st.cmd'', 2), (''/ioc/a.cmd'', 1), (''/ioc/b.cmd'', 2),
                        (''/ioc/a.cmd'', 1)]),
          (''dbl'', [(''/ioc/st.cmd'', 2), (''/ioc/a.cmd'', 1), (''/ioc/b.cmd'', 2),
                     (''/ioc/a.cmd'', 1), (''/ioc/c.cmd'', 1)]),
          (''dbl'', [(''/ioc/st.cmd'', 2), (''/ioc/b.cmd'', 3), (''/ioc/a.cmd'', 1)])],
         None, [])"
  by code_simp

section \<open>The record query\<close>

lemma split_scan_skip_prefix:
  "s0 \<notin> set a \<Longrightarrow>
   split_scan (s0 # srest) 0 cur (a @ r) = split_scan (s0 # srest) 0 (rev a @ cur) r"
  by (induction a arbitrary: cur) (auto simp add: startswith_def)

lemma split_scan_first: "\<exists>x more. split_scan sep 0 cur r = (rev cur @ x) # more"
proof (induction r arbitrary: cur)
  case Nil
  then show ?case by simp
next
  case (Cons c r)
  show ?case
  proof (cases "startswith (c # r) sep")
    case True
    then show ?thesis by simp
  next
    case False
    from Cons [of "c # cur"] obtain x more
      where "split_scan sep 0 (c # cur) r = (rev (c # cur) @ x) # more" by blast
    with False show ?thesis by simp
  qed
qed

lemma dropWhile_keeps: "\<not> P c \<Longrightarrow> \<exists>z. dropWhile P (u @ c # v) = z @ c # v"
proof (induction u)
  case Nil
  then show ?case by simp
next
  case (Cons a u)
  then obtain z where z: "dropWhile P (u @ c # v) = z @ c # v" by blast
  show ?case
  proof (cases "P a")
    case True
    with z show ?thesis by simp
  next
    case False
    then have "dropWhile P ((a # u) @ c # v) = (a # u) @ c # v" by simp
    then show ?thesis by blast
  qed
qed

lemma dropWhile_none: "\<forall>c \<in> set xs. \<not> P c \<Longrightarrow> dropWhile P xs = xs"
  by (cases xs) auto


lemma asyn_piece:
  assumes "CHR ''@'' \<notin> set pname"
    and "rest = [] \<or> (\<exists>r1. rest = CHR '','' # r1) \<or> set rest \<subseteq> set '' ()''"
  shows "\<exists>y more. py_split ''@asyn'' (''@asyn('' @ pname @ rest) = [] # (''('' @ pname @ y) # more
           \<and> (y = [] \<or> (\<exists>x. y = CHR '','' # x) \<or> set y \<subseteq> set '' ()'')"
proof -
  have start: "py_split ''@asyn'' (''@asyn('' @ pname @ rest) =
                 [] # split_scan ''@asyn'' 0 [] ((''('' @ pname) @ rest)"
    by (simp add: py_split_def startswith_def)
  have "CHR ''@'' \<notin> set (''('' @ pname)" using assms(1) by simp
  then have skip: "split_scan ''@asyn'' 0 [] ((''('' @ pname) @ rest) =
                     split_scan ''@asyn'' 0 (rev (''('' @ pname)) rest"
    using split_scan_skip_prefix [of "CHR ''@''" "''('' @ pname" "''asyn''" "[]" rest] by simp
  from assms(2) consider "rest = []" | r1 where "rest = CHR '','' # r1"
    | "set rest \<subseteq> set '' ()''" by blast
  then show ?thesis
  proof cases
    case 1
    then show ?thesis using start skip by simp
  next
    case 2
    from split_scan_first [of "''@asyn''" "CHR '','' # rev (''('' @ pname)" r1]
    obtain x more where
      "split_scan ''@asyn'' 0 (CHR '','' # rev (''('' @ pname)) r1 =
         (rev (CHR '','' # rev (''('' @ pname)) @ x) # more" by blast
    then show ?thesis using start skip 2 by (simp add: startswith_def)
  next
    case 3
    then have "CHR ''@'' \<notin> set rest" by auto
    then have "split_scan ''@asyn'' 0 (rev (''('' @ pname)) (rest @ []) =
                 split_scan ''@asyn'' 0 (rev rest @ rev (''('' @ pname)) []"
      using split_scan_skip_prefix [of "CHR ''@''" rest "''asyn''" "rev (''('' @ pname)" "[]"]
      by simp
    then show ?thesis using start skip 3 by simp
  qed
qed

lemma strip_piece:
  assumes "pname \<noteq> []" and "\<forall>c \<in> set pname. c \<notin> set '' ()''"
    and "y = [] \<or> (\<exists>x. y = CHR '','' # x) \<or> set y \<subseteq> set '' ()''"
  shows "py_strip_chars '' ()'' (''('' @ pname @ y) = pname
         \<or> (\<exists>w. py_strip_chars '' ()'' (''('' @ pname @ y) = pname @ CHR '','' # w)"
proof -
  let ?P = "\<lambda>c. c \<in> set '' ()''"
  obtain p ps where p: "pname = p # ps" using assms(1) by (cases pname) auto
  have np: "\<not> ?P p" using assms(2) p by simp
  have front: "dropWhile ?P (''('' @ pname @ y) = pname @ y"
    using np p by simp
  have unstripped: "dropWhile ?P (rev pname) = rev pname"
    using assms(2) dropWhile_none [of "rev pname" ?P] by simp
  from assms(3) consider "y = []" | x where "y = CHR '','' # x" | "set y \<subseteq> set '' ()''"
    by blast
  then show ?thesis
  proof cases
    case 1
    show ?thesis using front unstripped 1 by (simp add: py_strip_chars_def strip_where_def)
  next
    case 2
    have "\<not> ?P (CHR '','')" by simp
    with dropWhile_keeps [of ?P "CHR '',''" "rev x" "rev pname"]
    obtain z where "dropWhile ?P (rev x @ CHR '','' # rev pname) = z @ CHR '','' # rev pname"
      by blast
    then have "rev (dropWhile ?P (rev (pname @ y))) = pname @ CHR '','' # rev z"
      using 2 by simp
    then show ?thesis using front by (simp add: py_strip_chars_def strip_where_def)
  next
    case 3
    then have "\<And>c. c \<in> set (rev y) \<Longrightarrow> ?P c" by auto
    then have "dropWhile ?P (rev y @ rev pname) = dropWhile ?P (rev pname)"
      by (rule dropWhile_append2)
    also have "\<dots> = rev pname" by (rule unstripped)
    finally show ?thesis using front by (simp add: py_strip_chars_def strip_where_def)
  qed
qed

lemma first_argument:
  assumes "CHR '','' \<notin> set pname"
  shows "\<exists>more. py_split '','' pname = pname # more"
    and "\<exists>more. py_split '','' (pname @ CHR '','' # w) = pname # more"
proof -
  have "split_scan '','' 0 [] (pname @ []) = split_scan '','' 0 (rev pname @ []) []"
    using assms split_scan_skip_prefix [of "CHR '',''" pname "[]" "[]" "[]"] by simp
  then show "\<exists>more. py_split '','' pname = pname # more"
    by (simp add: py_split_def)
  have "split_scan '','' 0 [] (pname @ CHR '','' # w) =
          split_scan '','' 0 (rev pname @ []) (CHR '','' # w)"
    using assms split_scan_skip_prefix [of "CHR '',''" pname "[]" "[]" "CHR '','' # w"] by simp
  then show "\<exists>more. py_split '','' (pname @ CHR '','' # w) = pname # more"
    by (simp add: py_split_def startswith_def)
qed

lemma strip_clean:
  assumes "\<forall>c \<in> set pname. \<not> isspace c"
  shows "py_strip pname = pname"
proof -
  have "dropWhile isspace pname = pname"
    using assms by (rule dropWhile_none)
  moreover have "dropWhile isspace (rev pname) = rev pname"
    using assms dropWhile_none [of "rev pname" isspace] by simp
  ultimately show ?thesis by (simp add: py_strip_def strip_where_def)
qed

lemma get_asyn_port_resolves:
  assumes field: "(case ri_fields inst ''INP'' of Some f \<Rightarrow> Some f
                   | None \<Rightarrow> ri_fields inst ''OUT'') = Some f"
    and ref: "asyn_reference (field_value f) pname"
  shows "get_asyn_port_from_record st inst = asyn_ports st pname"
proof -
  define rest where "rest = drop (length (''@asyn('' @ pname)) (py_strip (field_value f))"
  from ref have sw: "startswith (py_strip (field_value f)) (''@asyn('' @ pname)"
    and ne: "pname \<noteq> []"
    and clean: "\<forall>c \<in> set pname. c \<notin> set '' (),@'' \<and> \<not> isspace c"
    and form: "case rest of [] \<Rightarrow> True | c # _ \<Rightarrow> c = CHR '','' \<or> set rest \<subseteq> set '' ()''"
    unfolding asyn_reference_def Let_def rest_def by simp_all
  from sw have "py_strip (field_value f) =
                  take (length (''@asyn('' @ pname)) (py_strip (field_value f)) @ rest"
    by (simp add: rest_def)
  with sw have stripped: "py_strip (field_value f) = ''@asyn('' @ pname @ rest"
    by (simp add: startswith_def)
  have rest: "rest = [] \<or> (\<exists>r1. rest = CHR '','' # r1) \<or> set rest \<subseteq> set '' ()''"
    using form by (cases rest) auto
  have c1: "CHR ''@'' \<notin> set pname" and c2: "\<forall>c \<in> set pname. c \<notin> set '' ()''"
    and c3: "CHR '','' \<notin> set pname" and c4: "\<forall>c \<in> set pname. \<not> isspace c"
    using clean by auto
  from asyn_piece [OF c1 rest] obtain y more where
    pieces: "py_split ''@asyn'' (''@asyn('' @ pname @ rest) = [] # (''('' @ pname @ y) # more"
    and y: "y = [] \<or> (\<exists>x. y = CHR '','' # x) \<or> set y \<subseteq> set '' ()''"
    by blast
  from strip_piece [OF ne c2 y] first_argument [OF c3]
  obtain more' where
    args: "py_split '','' (py_strip_chars '' ()'' (''('' @ pname @ y)) = pname # more'"
    by metis
  have starts: "startswith (''@asyn('' @ pname @ rest) ''@asyn''"
    by (simp add: startswith_def)
  show ?thesis
    unfolding get_asyn_port_from_record_def
    using field starts
    by (simp add: stripped pieces args strip_clean [OF c4] Let_def del: append.simps)
qed

text \<open>
  What \<open>whatrec\<close> returns for the references it does resolve. When the classic store
  holds the record, its \<open>INP\<close> field (or, if it has none, its \<open>OUT\<close> field) is a
  reference to a port in the form of \<open>asyn_reference\<close> and the port is registered, the
  result has the record among its instances and the port in its port list, behind the
  entry for its parent if it names one. A name that is in neither store gives \<open>None\<close>.
\<close>

lemma whatrec_resolves_port:
  "(\<forall>inst f pname r.
      database st rec = Some inst
      \<and> (case ri_fields inst ''INP'' of Some f \<Rightarrow> Some f | None \<Rightarrow> ri_fields inst ''OUT'') = Some f
      \<and> asyn_reference (field_value f) pname \<and> asyn_ports st pname = Some r \<longrightarrow>
      (\<exists>w. whatrec st rec field include_pva = Some w
         \<and> inst \<in> set (wr_instances w)
         \<and> wr_asyn_ports w =
             (case port_parent (port_store st r) of
                None \<Rightarrow> [Some (port_store st r)]
              | Some parent_port \<Rightarrow>
                  [map_option (port_store st) (asyn_ports st parent_port),
                   Some (port_store st r)])))
   \<and> (database st rec = None \<and> pva_database st rec = None \<longrightarrow>
        whatrec st rec field include_pva = None)"
proof (intro conjI allI impI)
  fix inst f pname r
  assume a: "database st rec = Some inst
      \<and> (case ri_fields inst ''INP'' of Some f \<Rightarrow> Some f | None \<Rightarrow> ri_fields inst ''OUT'') = Some f
      \<and> asyn_reference (field_value f) pname \<and> asyn_ports st pname = Some r"
  then have "get_asyn_port_from_record st inst = Some r"
    using get_asyn_port_resolves [of inst f pname st] by simp
  with a show "\<exists>w. whatrec st rec field include_pva = Some w
         \<and> inst \<in> set (wr_instances w)
         \<and> wr_asyn_ports w =
             (case port_parent (port_store st r) of
                None \<Rightarrow> [Some (port_store st r)]
              | Some parent_port \<Rightarrow>
                  [map_option (port_store st) (asyn_ports st parent_port),
                   Some (port_store st r)])"
    by (simp add: whatrec_def Let_def split: option.splits)
next
  assume "database st rec = None \<and> pva_database st rec = None"
  then show "whatrec st rec field include_pva = None"
    by (simp add: whatrec_def)
qed

lemma motor_state_ports:
  "asyn_ports motor_state ''P1'' = Some 0 \<and> asyn_ports motor_state ''M1'' = Some 1
   \<and> port_name (port_store motor_state 0) = ''P1''
   \<and> port_name (port_store motor_state 1) = ''M1''
   \<and> port_parent (port_store motor_state 1) = Some ''P1''
   \<and> port_parent (port_store motor_state 0) = None
   \<and> database motor_state ''test:mtr'' = Some motor_record
   \<and> database motor_state ''nosuch'' = None \<and> pva_database motor_state ''nosuch'' = None"
  by (simp add: motor_state_def handle_EthercatMCCreateController_def motor_wrapper_def
      EthercatMCCreateController_def handle_drvAsynSerialPortConfigure_def register_port_def
      make_port_def initial_state_def arg_def truthy_def or_empty_def Let_def
      generic_motor_handler_def example_env_def split: prod.splits sum.splits)

lemma motor_reference: "asyn_reference ''@asyn(M1,0)'' ''M1''"
  by (simp add: asyn_reference_def py_strip_def strip_where_def isspace_def startswith_def)

lemma whatrec_resolves_port_example:
  "(\<exists>w. whatrec motor_state ''test:mtr'' None True = Some w
      \<and> motor_record \<in> set (wr_instances w)
      \<and> map (map_option port_name) (wr_asyn_ports w) = [Some ''P1'', Some ''M1''])
   \<and> whatrec motor_state ''nosuch'' None True = None"
proof -
  have f: "(case ri_fields motor_record ''INP'' of Some f \<Rightarrow> Some f
            | None \<Rightarrow> ri_fields motor_record ''OUT'') =
           Some \<lparr>field_dtype = ''DBF_OUTLINK'', field_name = ''OUT'',
                 field_value = ''@asyn(M1,0)'', field_context = [(''/ioc/recs.db'', 10)]\<rparr>"
    by (simp add: motor_record_def)
  from whatrec_resolves_port [of motor_state "''test:mtr''" None True]
  have "\<exists>w. whatrec motor_state ''test:mtr'' None True = Some w
         \<and> motor_record \<in> set (wr_instances w)
         \<and> wr_asyn_ports w =
             (case port_parent (port_store motor_state 1) of
                None \<Rightarrow> [Some (port_store motor_state 1)]
              | Some parent_port \<Rightarrow>
                  [map_option (port_store motor_state) (asyn_ports motor_state parent_port),
                   Some (port_store motor_state 1)])"
    using f motor_reference motor_state_ports by fastforce
  moreover from whatrec_resolves_port [of motor_state "''nosuch''" None True]
  have "whatrec motor_state ''nosuch'' None True = None"
    using motor_state_ports by simp
  ultimately show ?thesis
    using motor_state_ports by auto
qed

text \<open>
  C4 at a concrete input. The script of \<open>link_script\<close> runs without an error; afterwards
  the port \<open>P1\<close> is registered and the record \<open>test:temp\<close> has the input link
  \<open>@asyn(P1)TEMP\<close>, which names \<open>P1\<close>. \<open>whatrec\<close> finds the record and returns an empty
  port list: \<open>strip(" ()")\<close> removes the parenthesis before the name only, so the name
  looked up in the registry is \<open>P1)TEMP\<close>.
\<close>

theorem link_without_address_unresolved:
  "map_option (\<lambda>(rs, exc, st). (map res_error rs, exc))
     (interpret_shell_script link_env 5 link_script ''/ioc/st.cmd'' True False initial_state) =
     Some ([None, None, None], None)
   \<and> registered_name link_state ''P1'' = Some ''P1''
   \<and> inp_value link_state ''test:temp'' = Some ''@asyn(P1)TEMP''
   \<and> map_option port_names (whatrec link_state ''test:temp'' None True) = Some []
   \<and> registered_name link_state ''P1)TEMP'' = None"
  by code_simp

text \<open>
  The same on the state \<open>serial_state\<close>, and for an \<open>@asynMask\<close> link; the link with
  the address, \<open>@asyn(P1,0,1)RBV\<close>, is resolved.
\<close>

lemma asyn_reference_without_address:
  "asyn_ports serial_state ''P1'' = Some 0
   \<and> get_asyn_port_from_record serial_state
        (example_record\<lparr>ri_fields :=
           [''INP'' \<mapsto> \<lparr>field_dtype = ''DBF_INLINK'', field_name = ''INP'',
                         field_value = ''@asyn(P1)TEMP'', field_context = []\<rparr>]\<rparr>) = None
   \<and> get_asyn_port_from_record serial_state
        (example_record\<lparr>ri_fields :=
           [''INP'' \<mapsto> \<lparr>field_dtype = ''DBF_INLINK'', field_name = ''INP'',
                         field_value = ''@asynMask(P1,0,255)BITS'', field_context = []\<rparr>]\<rparr>) = None
   \<and> get_asyn_port_from_record serial_state example_record = Some 0"
  by code_simp

section \<open>Port configuration\<close>

lemma wrapper_state:
  "snd (motor_wrapper E name method st args) = snd (method st args)"
  by (simp add: motor_wrapper_def split: prod.splits sum.splits)

text \<open>
  C6, as the code has it. The serial, IP and ADS configuration commands do nothing when
  the port name is missing or empty (the ADS command, which is wrapped, then returns the
  generic parameter listing if \<open>motor.shell_commands\<close> lists it). With a name they
  register a port of their class under it, and so does \<open>drvAsynMotorConfigure\<close>,
  whose motor port has no parent. \<open>EthercatMCCreateController\<close> looks its parent port up
  first: when the parent is registered, the motor port is registered under its own name
  with the parent's name as \<open>parent\<close> and entered in the parent's \<open>motors\<close>; when it
  is not, the lookup raises \<open>KeyError\<close> and nothing is registered.
\<close>

theorem port_configuration:
  "(\<not> truthy (arg args 0) \<longrightarrow>
      handle_drvAsynSerialPortConfigure st args = (Inr RNone, st)
      \<and> handle_drvAsynIPPortConfigure st args = (Inr RNone, st)
      \<and> snd (handle_adsAsynPortDriverConfigure E st args) = st
      \<and> (\<forall>params. map_of (shell_commands E) ''adsAsynPortDriverConfigure'' = Some params \<longrightarrow>
            (\<exists>info. fst (handle_adsAsynPortDriverConfigure E st args) = Inr info)))
   \<and> (\<forall>name. arg args 0 = Some name \<and> name \<noteq> [] \<longrightarrow>
        fst (handle_drvAsynSerialPortConfigure st args) = Inr RNone
        \<and> registers AsynSerialPort name None st (snd (handle_drvAsynSerialPortConfigure st args))
        \<and> fst (handle_drvAsynIPPortConfigure st args) = Inr RNone
        \<and> registers AsynIPPort name None st (snd (handle_drvAsynIPPortConfigure st args))
        \<and> registers AdsAsynPort name None st (snd (handle_adsAsynPortDriverConfigure E st args))
        \<and> registers AsynMotor name None st (snd (handle_drvAsynMotorConfigure E st args)))
   \<and> (\<forall>motor parent r. arg args 0 = Some motor \<and> motor \<noteq> [] \<and> arg args 1 = Some parent
          \<and> asyn_ports st parent = Some r \<and> r \<noteq> next_port st \<longrightarrow>
        registers AsynMotor motor (Some parent) st
          (snd (handle_EthercatMCCreateController E st args))
        \<and> port_motors (port_store (snd (handle_EthercatMCCreateController E st args)) r) motor =
            Some (next_port st))
   \<and> (\<forall>motor parent. arg args 0 = Some motor \<and> motor \<noteq> [] \<and> arg args 1 = Some parent
          \<and> asyn_ports st parent = None \<longrightarrow>
        handle_EthercatMCCreateController E st args = (Inl (KeyError parent), st))"
proof (intro conjI allI impI)
  assume "\<not> truthy (arg args 0)"
  then show "handle_drvAsynSerialPortConfigure st args = (Inr RNone, st)"
    and "handle_drvAsynIPPortConfigure st args = (Inr RNone, st)"
    and "snd (handle_adsAsynPortDriverConfigure E st args) = st"
    by (simp_all add: handle_drvAsynSerialPortConfigure_def handle_drvAsynIPPortConfigure_def
        handle_adsAsynPortDriverConfigure_def wrapper_state adsAsynPortDriverConfigure_def)
next
  fix params
  assume "\<not> truthy (arg args 0)"
    and "map_of (shell_commands E) ''adsAsynPortDriverConfigure'' = Some params"
  then show "\<exists>info. fst (handle_adsAsynPortDriverConfigure E st args) = Inr info"
    by (simp add: handle_adsAsynPortDriverConfigure_def motor_wrapper_def
        adsAsynPortDriverConfigure_def generic_motor_handler_def)
next
  fix name
  assume a: "arg args 0 = Some name \<and> name \<noteq> []"
  then have t: "truthy (arg args 0)" "or_empty (arg args 0) = name"
    by (simp_all add: truthy_def or_empty_def)
  show "fst (handle_drvAsynSerialPortConfigure st args) = Inr RNone"
    and "fst (handle_drvAsynIPPortConfigure st args) = Inr RNone"
    using t by (simp_all add: handle_drvAsynSerialPortConfigure_def
        handle_drvAsynIPPortConfigure_def)
  show "registers AsynSerialPort name None st (snd (handle_drvAsynSerialPortConfigure st args))"
    and "registers AsynIPPort name None st (snd (handle_drvAsynIPPortConfigure st args))"
    and "registers AdsAsynPort name None st (snd (handle_adsAsynPortDriverConfigure E st args))"
    and "registers AsynMotor name None st (snd (handle_drvAsynMotorConfigure E st args))"
    using t by (simp_all add: registers_def handle_drvAsynSerialPortConfigure_def
        handle_drvAsynIPPortConfigure_def handle_adsAsynPortDriverConfigure_def
        handle_drvAsynMotorConfigure_def wrapper_state adsAsynPortDriverConfigure_def
        drvAsynMotorConfigure_def register_port_def make_port_def Let_def)
next
  fix motor parent r
  assume a: "arg args 0 = Some motor \<and> motor \<noteq> [] \<and> arg args 1 = Some parent
          \<and> asyn_ports st parent = Some r \<and> r \<noteq> next_port st"
  then show "registers AsynMotor motor (Some parent) st
          (snd (handle_EthercatMCCreateController E st args))"
    and "port_motors (port_store (snd (handle_EthercatMCCreateController E st args)) r) motor =
            Some (next_port st)"
    by (simp_all add: registers_def handle_EthercatMCCreateController_def wrapper_state
        EthercatMCCreateController_def make_port_def Let_def or_empty_def)
next
  fix motor parent
  assume a: "arg args 0 = Some motor \<and> motor \<noteq> [] \<and> arg args 1 = Some parent
          \<and> asyn_ports st parent = None"
  then show "handle_EthercatMCCreateController E st args = (Inl (KeyError parent), st)"
    by (simp add: handle_EthercatMCCreateController_def motor_wrapper_def
        EthercatMCCreateController_def Let_def or_empty_def)
qed

lemma serial_state_ports:
  "asyn_ports serial_state ''P1'' = Some 0 \<and> next_port serial_state = 1
   \<and> asyn_ports initial_state ''P1'' = None \<and> next_port initial_state = 0"
  by (simp add: serial_state_def register_port_def initial_state_def)

theorem port_configuration_witness:
  "handle_drvAsynSerialPortConfigure initial_state [] = (Inr RNone, initial_state)
   \<and> handle_drvAsynIPPortConfigure initial_state [] = (Inr RNone, initial_state)
   \<and> snd (handle_adsAsynPortDriverConfigure example_env initial_state []) = initial_state
   \<and> (\<exists>info. fst (handle_adsAsynPortDriverConfigure example_env initial_state []) = Inr info)
   \<and> registers AsynSerialPort ''P1'' None initial_state
        (snd (handle_drvAsynSerialPortConfigure initial_state [''P1'', ''/dev/ttyS0'']))
   \<and> registers AsynMotor ''P1'' None initial_state
        (snd (handle_drvAsynMotorConfigure example_env initial_state [''P1'', ''/dev/ttyS0'']))
   \<and> registers AsynMotor ''M1'' (Some ''P1'') serial_state
        (snd (handle_EthercatMCCreateController example_env serial_state [''M1'', ''P1'', ''2'']))
   \<and> port_motors
        (port_store
           (snd (handle_EthercatMCCreateController example_env serial_state [''M1'', ''P1'', ''2'']))
           0) ''M1'' = Some 1
   \<and> handle_EthercatMCCreateController example_env initial_state [''M1'', ''P1'', ''2''] =
        (Inl (KeyError ''P1''), initial_state)"
proof -
  have ads: "map_of (shell_commands example_env) ''adsAsynPortDriverConfigure'' =
               Some [(''portName'', ''str'')]"
    by (simp add: example_env_def)
  have "\<not> truthy (arg [] 0)" by (simp add: truthy_def arg_def)
  with port_configuration [of "[]" initial_state example_env] ads
  have noop: "handle_drvAsynSerialPortConfigure initial_state [] = (Inr RNone, initial_state)
     \<and> handle_drvAsynIPPortConfigure initial_state [] = (Inr RNone, initial_state)
     \<and> snd (handle_adsAsynPortDriverConfigure example_env initial_state []) = initial_state
     \<and> (\<exists>info. fst (handle_adsAsynPortDriverConfigure example_env initial_state []) = Inr info)"
    by blast
  have "arg [''P1'', ''/dev/ttyS0''] 0 = Some ''P1'' \<and> ''P1'' \<noteq> []" by (simp add: arg_def)
  with port_configuration [of "[''P1'', ''/dev/ttyS0'']" initial_state example_env]
  have named: "registers AsynSerialPort ''P1'' None initial_state
        (snd (handle_drvAsynSerialPortConfigure initial_state [''P1'', ''/dev/ttyS0'']))
     \<and> registers AsynMotor ''P1'' None initial_state
        (snd (handle_drvAsynMotorConfigure example_env initial_state [''P1'', ''/dev/ttyS0'']))"
    by blast
  have m: "arg [''M1'', ''P1'', ''2''] 0 = Some ''M1'' \<and> ''M1'' \<noteq> []
           \<and> arg [''M1'', ''P1'', ''2''] 1 = Some ''P1''"
    by (simp add: arg_def)
  with port_configuration [of "[''M1'', ''P1'', ''2'']" serial_state example_env]
    serial_state_ports
  have motor: "registers AsynMotor ''M1'' (Some ''P1'') serial_state
        (snd (handle_EthercatMCCreateController example_env serial_state [''M1'', ''P1'', ''2'']))
     \<and> port_motors
        (port_store
           (snd (handle_EthercatMCCreateController example_env serial_state [''M1'', ''P1'', ''2'']))
           0) ''M1'' = Some 1"
    by simp
  from m port_configuration [of "[''M1'', ''P1'', ''2'']" initial_state example_env]
    serial_state_ports
  have orphan: "handle_EthercatMCCreateController example_env initial_state [''M1'', ''P1'', ''2''] =
        (Inl (KeyError ''P1''), initial_state)"
    by simp
  from noop named motor orphan show ?thesis by simp
qed

text \<open>
  C6 as stated fails for the motor-controller commands: \<open>EthercatMCCreateController M1 P1\<close>
  has its port name, and with no port \<open>P1\<close> it raises and registers nothing; and the
  port that \<open>drvAsynMotorConfigure\<close> registers has no parent.
\<close>

theorem ethercat_unregistered_parent:
  "handle_EthercatMCCreateController example_env initial_state [''M1'', ''P1''] =
     (Inl (KeyError ''P1''), initial_state)
   \<and> truthy (arg [''M1'', ''P1''] 0)
   \<and> asyn_ports initial_state ''M1'' = None
   \<and> asyn_ports (snd (handle_drvAsynMotorConfigure example_env initial_state
                         [''M2'', ''drv'', ''0'', ''4''])) ''M2'' = Some 0
   \<and> port_parent (port_store (snd (handle_drvAsynMotorConfigure example_env initial_state
                         [''M2'', ''drv'', ''0'', ''4''])) 0) = None"
  by (simp add: handle_EthercatMCCreateController_def motor_wrapper_def
      EthercatMCCreateController_def Let_def or_empty_def arg_def truthy_def initial_state_def
      handle_drvAsynMotorConfigure_def drvAsynMotorConfigure_def register_port_def make_port_def
      generic_motor_handler_def example_env_def)

text \<open>
  Without a port name the two motor-controller handlers, which do not test it, register
  a port under the empty name and raise \<open>KeyError\<close> for the empty parent name.
\<close>

lemma motor_configure_without_name:
  "asyn_ports (snd (handle_drvAsynMotorConfigure example_env initial_state [])) [] = Some 0
   \<and> fst (handle_drvAsynMotorConfigure example_env initial_state []) = Inr (RGenericInfo [])
   \<and> handle_EthercatMCCreateController example_env initial_state [] =
       (Inl (KeyError []), initial_state)"
  by (simp add: handle_EthercatMCCreateController_def motor_wrapper_def
      EthercatMCCreateController_def Let_def or_empty_def arg_def truthy_def initial_state_def
      handle_drvAsynMotorConfigure_def drvAsynMotorConfigure_def register_port_def make_port_def
      generic_motor_handler_def example_env_def)

section \<open>The load-context stack of a script that follows no include\<close>

text \<open>
  No command handler touches the load-context stack, so a line that is interpreted with
  \<open>recurse = False\<close> leaves it as it is.
\<close>

lemma keeps_stack_refl [simp]: "keeps_stack st st"
  by (simp add: keeps_stack_def)

lemma load_file_keeps: "keeps_stack st (snd (load_file E st filename))"
  by (simp add: load_file_def keeps_stack_def Let_def split: sum.splits prod.splits)

lemma merge_records_keeps: "keeps_stack st (merge_records context items st)"
proof (induction items arbitrary: st)
  case Nil
  then show ?case by simp
next
  case (Cons item items)
  obtain n r where item: "item = (n, r)" by (cases item)
  have "keeps_stack st
          (case database st n of
             None \<Rightarrow> st\<lparr>database := (database st)(n \<mapsto> r\<lparr>ri_context := context @ ri_context r\<rparr>)\<rparr>
           | Some entry \<Rightarrow> st\<lparr>database := (database st)(n \<mapsto>
                  entry\<lparr>ri_context := ri_context entry @ ri_context r,
                        ri_fields := ri_fields entry ++ ri_fields r\<rparr>)\<rparr>)"
    by (simp add: keeps_stack_def split: option.splits)
  with Cons [of "case database st n of
             None \<Rightarrow> st\<lparr>database := (database st)(n \<mapsto> r\<lparr>ri_context := context @ ri_context r\<rparr>)\<rparr>
           | Some entry \<Rightarrow> st\<lparr>database := (database st)(n \<mapsto>
                  entry\<lparr>ri_context := ri_context entry @ ri_context r,
                        ri_fields := ri_fields entry ++ ri_fields r\<rparr>)\<rparr>"]
  show ?case by (simp add: item keeps_stack_def)
qed

lemma merge_pva_groups_keeps: "keeps_stack st (snd (merge_pva_groups context items st))"
proof (induction items arbitrary: st)
  case Nil
  then show ?case by simp
next
  case (Cons item items)
  obtain n r where item: "item = (n, r)" by (cases item)
  show ?case
  proof (cases "pva_database st n")
    case None
    with Cons [of "st\<lparr>pva_database :=
                  (pva_database st)(n \<mapsto> r\<lparr>ri_context := context @ ri_context r\<rparr>)\<rparr>"]
    show ?thesis by (simp add: item keeps_stack_def)
  next
    case (Some e)
    show ?thesis
    proof (cases "database st n")
      case None
      with Some show ?thesis by (simp add: item)
    next
      case (Some entry)
      with \<open>pva_database st n = Some e\<close>
        Cons [of "st\<lparr>database := (database st)(n \<mapsto>
                       entry\<lparr>ri_context := ri_context entry @ ri_context r,
                             ri_fields := ri_fields entry ++ ri_fields r\<rparr>)\<rparr>"]
      show ?thesis by (simp add: item keeps_stack_def)
    qed
  qed
qed

lemma env_set_loop_keeps:
  "keeps_stack st (snd (env_set_EPICS_BASE_loop E st prefixes path))"
  by (induction prefixes) (simp_all add: keeps_stack_def Let_def)

lemma keeps_stack_trans: "keeps_stack a b \<Longrightarrow> keeps_stack b c \<Longrightarrow> keeps_stack a c"
  by (simp add: keeps_stack_def)

lemma load_file_keepsD: "load_file E st f = (r, st1) \<Longrightarrow> keeps_stack st st1"
  using load_file_keeps [of st E f] by simp

lemma merge_keepsD:
  "merge_pva_groups c pv (merge_records c rs st1) = (r, st3) \<Longrightarrow> keeps_stack st1 st3"
  using merge_records_keeps [of st1 c rs] merge_pva_groups_keeps [of "merge_records c rs st1" c pv]
  by (auto intro: keeps_stack_trans)

lemma env_set_keepsD:
  assumes "env_set_EPICS_BASE E st1 v = (r, st2)"
  shows "keeps_stack st1 st2"
proof -
  have "keeps_stack st1 (snd (env_set_EPICS_BASE E st1 v))"
    unfolding env_set_EPICS_BASE_def by (rule env_set_loop_keeps)
  with assms show ?thesis by simp
qed

lemma handle_dbLoadDatabase_keeps: "keeps_stack st (snd (handle_dbLoadDatabase E st args))"
  by (auto simp add: handle_dbLoadDatabase_def keeps_stack_def
      split: list.splits sum.splits prod.splits dest!: load_file_keepsD)

lemma handle_dbLoadRecords_keeps: "keeps_stack st (snd (handle_dbLoadRecords E st args))"
  by (auto simp add: handle_dbLoadRecords_def keeps_stack_def Let_def
      split: list.splits option.splits sum.splits prod.splits
      dest!: load_file_keepsD merge_keepsD)

lemma simple_handlers_keep:
  "keeps_stack st (snd (handle_iocshRegisterVariable st args))"
  "keeps_stack st (snd (handle_epicsEnvShow E st args))"
  "keeps_stack st (snd (handle_iocshCmd st args))"
  "keeps_stack st (snd (handle_cd E st args))"
  "keeps_stack st (snd (handle_iocInit st args))"
  "keeps_stack st (snd (handle_dbl st args))"
  "keeps_stack st (snd (handle_NDPvaConfigure st args))"
  "keeps_stack st (snd (handle_drvAsynSerialPortConfigure st args))"
  "keeps_stack st (snd (handle_drvAsynIPPortConfigure st args))"
  "keeps_stack st (snd (handle_asynSetOption st args))"
  "keeps_stack st (snd (adsAsynPortDriverConfigure st args))"
  "keeps_stack st (snd (drvAsynMotorConfigure st args))"
  "keeps_stack st (snd (EthercatMCCreateController st args))"
  by (simp_all add: keeps_stack_def handle_iocshRegisterVariable_def handle_epicsEnvShow_def
      handle_iocshCmd_def handle_cd_def handle_iocInit_def handle_dbl_def
      handle_NDPvaConfigure_def handle_drvAsynSerialPortConfigure_def
      handle_drvAsynIPPortConfigure_def handle_asynSetOption_def adsAsynPortDriverConfigure_def
      drvAsynMotorConfigure_def EthercatMCCreateController_def register_port_def Let_def
      split: list.splits option.splits sum.splits)

lemma handle_epicsEnvSet_keeps: "keeps_stack st (snd (handle_epicsEnvSet E st args))"
  by (auto simp add: handle_epicsEnvSet_def keeps_stack_def Let_def
      split: list.splits prod.splits dest!: env_set_keepsD)

lemma handlers_keep:
  assumes "handlers E name = Some h"
  shows "keeps_stack st (snd (h st args))"
proof (cases "map_of (found_handlers E) name")
  case None
  with assms have "h = (\<lambda>st args. (case generic_motor_handler E name args of
                     Inl ex \<Rightarrow> (Inl ex, st)
                   | Inr info \<Rightarrow> (Inr info, st)))"
    by (auto simp add: handlers_def split: if_splits)
  then show ?thesis by (simp split: sum.splits)
next
  case (Some h')
  with assms have "h' = h" by (simp add: handlers_def)
  with Some have "(name, h) \<in> set (found_handlers E)" by (auto dest: map_of_SomeD)
  then show ?thesis
    by (auto simp add: found_handlers_def simple_handlers_keep handle_epicsEnvSet_keeps
        handle_dbLoadRecords_keeps handle_dbLoadDatabase_keeps wrapper_state
        handle_EthercatMCCreateController_def handle_adsAsynPortDriverConfigure_def
        handle_drvAsynMotorConfigure_def)
qed

lemma handle_command_keeps: "keeps_stack st (snd (handle_command E st command args))"
proof (induction args arbitrary: command)
  case Nil
  then show ?case by (auto simp add: unhandled_def handlers_keep split: option.splits)
next
  case (Cons a args)
  then show ?case by (auto simp add: unhandled_def handlers_keep split: option.splits)
qed

lemma after_yield_cases:
  "after_yield shresult st = Done [shresult] None st
   \<or> (\<exists>command. after_yield shresult st = Reinvoke shresult command st)"
  by (simp add: after_yield_def split: cmd_result.splits)

lemma dispatch_line_cases:
  "\<exists>st1. keeps_stack st st1
     \<and> ((\<exists>rs exc. dispatch_line E shresult strict st = Done rs exc st1)
        \<or> (\<exists>sh command. dispatch_line E shresult strict st = Reinvoke sh command st1))"
proof (cases "res_argv shresult")
  case Nil
  then show ?thesis by (auto simp add: dispatch_line_def)
next
  case (Cons command args)
  obtain r st1 where h: "handle_command E st command args = (r, st1)"
    by (cases "handle_command E st command args")
  then have k: "keeps_stack st st1"
    using handle_command_keeps [of st E command args] by simp
  show ?thesis
  proof (cases r)
    case (Inl ex)
    with h k Cons
      after_yield_cases [of "shresult\<lparr>res_error := Some (FailedToExecute ex)\<rparr>" st1]
    show ?thesis by (auto simp add: dispatch_line_def)
  next
    case (Inr res)
    with h k Cons after_yield_cases [of "shresult\<lparr>res_result := res\<rparr>" st1]
    show ?thesis by (auto simp add: dispatch_line_def)
  qed
qed

lemma line_action_cases:
  "\<exists>st1. keeps_stack st st1
     \<and> ((\<exists>rs exc. line_action E line False strict st = Done rs exc st1)
        \<or> (\<exists>sh command. line_action E line False strict st = Reinvoke sh command st1))"
  using dispatch_line_cases [of st E _ strict]
  by (auto simp add: line_action_def Let_def split: list.splits)

lemma interpret_shell_line_keeps:
  "interpret_shell_line E n line False strict st = Some (rs, exc, st') \<Longrightarrow> keeps_stack st st'"
proof (induction n arbitrary: line strict st rs exc st')
  case 0
  then show ?case by simp
next
  case (Suc n)
  from line_action_cases [of st E line strict] obtain st1 where k: "keeps_stack st st1"
    and c: "(\<exists>rs exc. line_action E line False strict st = Done rs exc st1)
            \<or> (\<exists>sh command. line_action E line False strict st = Reinvoke sh command st1)"
    by blast
  from c show ?case
  proof
    assume "\<exists>rs exc. line_action E line False strict st = Done rs exc st1"
    with Suc.prems k show ?thesis by auto
  next
    assume "\<exists>sh command. line_action E line False strict st = Reinvoke sh command st1"
    then obtain sh command where
      r: "line_action E line False strict st = Reinvoke sh command st1" by blast
    with Suc.prems obtain rs' where
      "interpret_shell_line E n command False False st1 = Some (rs', exc, st')"
      by (auto simp add: yield_first_def split: option.splits)
    then have "keeps_stack st1 st'" by (rule Suc.IH)
    with k show ?thesis by (rule keeps_stack_trans)
  qed
qed

lemma set_line_last:
  "\<forall>s \<in> set S. ctx_id s \<noteq> ctx_id c \<Longrightarrow>
   set_line (ctx_id c) k (S @ [c]) = S @ [c\<lparr>ctx_line := k\<rparr>]"
  by (induction S) (simp_all add: set_line_def)

lemma interpret_lines_stack:
  assumes "interpret_lines E n c k lines False strict st = Some (rs, exc, c', st')"
    and "load_context st = S @ [c]"
    and "\<forall>s \<in> set S. ctx_id s \<noteq> ctx_id c"
  shows "load_context st' = S @ [c'] \<and> ctx_name c' = ctx_name c"
  using assms
proof (induction lines arbitrary: c k st rs)
  case Nil
  then show ?case by simp
next
  case (Cons line lines)
  let ?c = "c\<lparr>ctx_line := k\<rparr>"
  have entered: "load_context (enter_line c k st) = S @ [?c]"
    using Cons.prems(2,3) by (simp add: enter_line_def set_line_last)
  from Cons.prems(1) obtain rs1 exc1 st1 where
    line: "interpret_shell_line E n line False strict (enter_line c k st) = Some (rs1, exc1, st1)"
    by (auto split: option.splits)
  then have "keeps_stack (enter_line c k st) st1" by (rule interpret_shell_line_keeps)
  with entered have st1: "load_context st1 = S @ [?c]" by (simp add: keeps_stack_def)
  show ?case
  proof (cases exc1)
    case (Some ex)
    with Cons.prems(1) line st1 show ?thesis by auto
  next
    case None
    with Cons.prems(1) line obtain rs2 where
      "interpret_lines E n ?c (Suc k) lines False strict st1 = Some (rs2, exc, c', st')"
      by auto
    from Cons.IH [OF this st1] Cons.prems(3) show ?thesis by simp
  qed
qed

lemma remove_first_last:
  "\<forall>x \<in> set xs. \<not> P x \<Longrightarrow> P y \<Longrightarrow> remove_first P (xs @ [y]) = Some xs"
  by (induction xs) simp_all

text \<open>
  When \<open>interpret_shell_script\<close> runs with \<open>recurse = False\<close> and no entry of the stack has
  the script's name, the stack after the call is the stack before it, whether the
  interpretation ends normally or by an exception propagated in strict mode.
\<close>

lemma plain_script_restores_stack:
  assumes "interpret_shell_script E n lines name False strict st = Some (rs, exc, st')"
    and "\<forall>c \<in> set (load_context st). ctx_id c \<noteq> next_ctx st \<and> ctx_name c \<noteq> name"
  shows "load_context st' = load_context st"
proof -
  let ?c = "\<lparr>ctx_id = next_ctx st, ctx_name = name, ctx_line = 0\<rparr>"
  let ?st1 = "st\<lparr>load_context := load_context st @ [?c], next_ctx := Suc (next_ctx st)\<rparr>"
  from assms(1) obtain rs1 exc1 c' st2 where
    run: "interpret_lines E n ?c 1 lines False strict ?st1 = Some (rs1, exc1, c', st2)"
    and out: "leave_script (rs1, exc1, c', st2) = (rs, exc, st')"
    by (auto simp add: enter_script_def Let_def)
  have "load_context st2 = load_context st @ [c'] \<and> ctx_name c' = ctx_name ?c"
    using run assms(2) by (intro interpret_lines_stack [where S = "load_context st"]) auto
  then have stack: "load_context st2 = load_context st @ [c']" and nm: "ctx_name c' = name"
    by simp_all
  have "remove_first (ctx_eq c') (load_context st @ [c']) = Some (load_context st)"
    using assms(2) nm by (intro remove_first_last) (auto simp add: ctx_eq_def)
  with out stack show ?thesis by (auto simp add: leave_script_def)
qed

lemma strict_failure_restores_stack:
  "map_option (\<lambda>(rs, exc, st). (map res_line rs, exc, load_context st))
     (interpret_shell_script example_env 5 [''dbl'', ''dbLoadRecords recs.db P=test:'', ''dbl'']
        ''/ioc/st.cmd'' False True initial_state) =
   Some ([''dbl''], Some (RuntimeError ''dbd not yet loaded''), [])"
  by code_simp

end
